theory Spec2Isabelle
  imports Complex_Main "HOL-Library.Monad_Syntax"
begin

section \<open>The C runtime the engine runs on\<close>

text \<open>
  The weather-LSTM engine (\<^verbatim>\<open>matrix.c\<close>, \<^verbatim>\<open>lstm.c\<close>, \<^verbatim>\<open>weather_data.c\<close>) computes on C
  \<^verbatim>\<open>double\<close>s. The embedding keeps the element type a parameter \<open>'a\<close> that carries only
  the operation symbols (\<open>0\<close>, \<open>1\<close>, \<open>+\<close>, \<open>-\<close>, \<open>*\<close>, \<open>/\<close>, \<open><\<close>) through the law-free
  syntactic type classes, so no theorem below uses associativity, commutativity or any
  other law that IEEE-754 arithmetic lacks. What the C library and the compiler supply
  is a record: the answer of the allocator to a request of \<open>n\<close> bytes, whether a file of a
  given name can be opened for writing, the \<^verbatim>\<open>libm\<close> functions, and the \<^verbatim>\<open>double\<close> that
  stands for a number (the value of a decimal literal, the conversion of an \<^verbatim>\<open>int\<close>).
\<close>

record 'a runtime =
  malloc_ok :: "nat \<Rightarrow> bool"
  fopen_w_ok :: "string \<Rightarrow> bool"
  libm_exp :: "'a \<Rightarrow> 'a"
  libm_tanh :: "'a \<Rightarrow> 'a"
  libm_sqrt :: "'a \<Rightarrow> 'a"
  to_double :: "real \<Rightarrow> 'a"

text \<open>\<^verbatim>\<open>int\<close> is 32 bits wide, \<^verbatim>\<open>size_t\<close> 64 (LP64, the platform of the CI workflow).\<close>

definition INT_MAX :: int where
  "INT_MAX = 2147483647"

definition SIZE_MOD :: nat where
  "SIZE_MOD = 2 ^ 64"

definition size_t_of_int :: "int \<Rightarrow> nat" where
  "size_t_of_int n = nat (n mod int SIZE_MOD)"

definition sizeof_double :: nat where
  "sizeof_double = 8"

definition sizeof_ptr :: nat where
  "sizeof_ptr = 8"

definition sizeof_Matrix :: nat where
  "sizeof_Matrix = 16"





text \<open>\<^verbatim>\<open>malloc(n * size)\<close>: the product is taken in \<^verbatim>\<open>size_t\<close>, so it wraps.\<close>

definition malloc_array :: "'a runtime \<Rightarrow> int \<Rightarrow> nat \<Rightarrow> bool" where
  "malloc_array rt n sz = malloc_ok rt ((size_t_of_int n * sz) mod SIZE_MOD)"

text \<open>\<^verbatim>\<open>calloc(nmemb, size)\<close>: fails when the product overflows, else asks the allocator
  and hands out zeroed elements.\<close>

definition calloc :: "'a runtime \<Rightarrow> int \<Rightarrow> nat \<Rightarrow> ('a::zero) list option" where
  "calloc rt nmemb sz =
     (if size_t_of_int nmemb * sz < SIZE_MOD \<and> malloc_ok rt (size_t_of_int nmemb * sz)
      then Some (replicate (size_t_of_int nmemb) 0) else None)"

section \<open>Dense matrices (matrix.h, matrix.c)\<close>

text \<open>\<^verbatim>\<open>typedef struct { double **data; int rows; int cols; } Matrix;\<close>
  A \<^verbatim>\<open>Matrix*\<close> is an \<open>'a Matrix option\<close>, \<open>None\<close> being \<^verbatim>\<open>NULL\<close>.\<close>

record 'a Matrix =
  data :: "'a list list"
  rows :: int
  cols :: int

text \<open>The shape invariant of every matrix the module hands out: \<open>rows\<close> row buffers of
  \<open>cols\<close> elements each.\<close>

definition wf_matrix :: "'a Matrix \<Rightarrow> bool" where
  "wf_matrix m \<longleftrightarrow>
     0 \<le> rows m \<and> rows m \<le> INT_MAX \<and> 0 \<le> cols m \<and> cols m \<le> INT_MAX \<and>
     length (data m) = nat (rows m) \<and> list_all (\<lambda>r. length r = nat (cols m)) (data m)"

text \<open>The row loop of \<^verbatim>\<open>matrix_create\<close>: one \<^verbatim>\<open>calloc\<close> per row, giving up at the first
  refusal.\<close>

fun create_rows :: "'a runtime \<Rightarrow> int \<Rightarrow> nat \<Rightarrow> ('a::zero) list list \<Rightarrow> 'a list list option" where
  "create_rows rt c 0 d = Some d"
| "create_rows rt c (Suc n) d =
     (case calloc rt c sizeof_double of
        None \<Rightarrow> None
      | Some r \<Rightarrow> create_rows rt c n (d @ [r]))"

definition matrix_create :: "'a runtime \<Rightarrow> int \<Rightarrow> int \<Rightarrow> ('a::zero) Matrix option" where
  "matrix_create rt r c =
     (if \<not> malloc_ok rt sizeof_Matrix then None
      else if \<not> malloc_array rt r sizeof_ptr then None
      else case create_rows rt c (nat r) [] of
             None \<Rightarrow> None
           | Some d \<Rightarrow> Some \<lparr>data = d, rows = r, cols = c\<rparr>)"

definition matrix_get :: "('a::zero) Matrix option \<Rightarrow> int \<Rightarrow> int \<Rightarrow> 'a" where
  "matrix_get mp row col =
     (case mp of
        None \<Rightarrow> 0
      | Some m \<Rightarrow>
          if row < 0 \<or> row \<ge> rows m \<or> col < 0 \<or> col \<ge> cols m then 0
          else data m ! nat row ! nat col)"

text \<open>\<^verbatim>\<open>m->data[i][j] = v\<close>. The module never resizes a matrix, so its loops stay
  inside the buffers of a matrix that satisfies \<open>wf_matrix\<close>; they are written with
  \<open>!\<close> and list update, and every theorem about them assumes \<open>wf_matrix\<close>.\<close>

definition store :: "'a list list \<Rightarrow> nat \<Rightarrow> nat \<Rightarrow> 'a \<Rightarrow> 'a list list" where
  "store d i j v = d[i := (d ! i)[j := v]]"

definition matrix_set :: "'a Matrix option \<Rightarrow> int \<Rightarrow> int \<Rightarrow> 'a \<Rightarrow> 'a Matrix option" where
  "matrix_set mp row col v =
     (case mp of
        None \<Rightarrow> None
      | Some m \<Rightarrow>
          if row < 0 \<or> row \<ge> rows m \<or> col < 0 \<or> col \<ge> cols m then Some m
          else Some (m\<lparr>data := store (data m) (nat row) (nat col) v\<rparr>))"


text \<open>\<^verbatim>\<open>for (int i = 0; i < n; i++) for (int j = 0; j < m; j++) body\<close>\<close>

definition for2 :: "int \<Rightarrow> int \<Rightarrow> (nat \<Rightarrow> nat \<Rightarrow> 's \<Rightarrow> 's) \<Rightarrow> 's \<Rightarrow> 's" where
  "for2 n m body s = foldl (\<lambda>s i. foldl (\<lambda>s j. body i j s) s [0..<nat m]) s [0..<nat n]"

definition matrix_zero :: "('a::zero) Matrix option \<Rightarrow> 'a Matrix option" where
  "matrix_zero mp =
     (case mp of
        None \<Rightarrow> None
      | Some m \<Rightarrow> Some (m\<lparr>data := for2 (rows m) (cols m) (\<lambda>i j d. store d i j 0) (data m)\<rparr>))"

text \<open>\<^verbatim>\<open>rand()\<close>: the generator is the stream of the values it will return.\<close>

type_synonym rng = "nat \<Rightarrow> int"

definition RAND_MAX :: int where
  "RAND_MAX = 2147483647"

definition rand :: "rng \<Rightarrow> int \<times> rng" where
  "rand g = (g 0, \<lambda>n. g (Suc n))"

definition matrix_random ::
  "'a runtime \<Rightarrow> rng \<Rightarrow> ('a::{plus,minus,times,inverse}) Matrix option \<Rightarrow> 'a \<Rightarrow> 'a
     \<Rightarrow> 'a Matrix option \<times> rng" where
  "matrix_random rt g mp lo hi =
     (case mp of
        None \<Rightarrow> (None, g)
      | Some m \<Rightarrow>
          (case for2 (rows m) (cols m)
                  (\<lambda>i j (d, g).
                     let (r, g') = rand g;
                         random = to_double rt (of_int r) / to_double rt (of_int RAND_MAX)
                     in (store d i j (lo + random * (hi - lo)), g'))
                  (data m, g) of
             (d, g') \<Rightarrow> (Some (m\<lparr>data := d\<rparr>), g')))"

text \<open>\<^verbatim>\<open>matrix_copy(dest, src)\<close> returns the object behind \<^verbatim>\<open>dest\<close> after the call.\<close>

definition matrix_copy :: "'a Matrix option \<Rightarrow> 'a Matrix option \<Rightarrow> 'a Matrix option" where
  "matrix_copy destp srcp =
     (case (destp, srcp) of
        (Some dest, Some src) \<Rightarrow>
          if rows dest \<noteq> rows src \<or> cols dest \<noteq> cols src then Some dest
          else Some (dest\<lparr>data := for2 (rows src) (cols src)
                                     (\<lambda>i j d. store d i j (data src ! i ! j)) (data dest)\<rparr>)
      | _ \<Rightarrow> destp)"

definition matrix_multiply ::
  "'a runtime \<Rightarrow> ('a::{zero,plus,times}) Matrix option \<Rightarrow> 'a Matrix option \<Rightarrow> 'a Matrix option" where
  "matrix_multiply rt ap bp =
     (case (ap, bp) of
        (Some a, Some b) \<Rightarrow>
          if cols a \<noteq> rows b then None
          else (case matrix_create rt (rows a) (cols b) of
                  None \<Rightarrow> None
                | Some result \<Rightarrow>
                    Some (result\<lparr>data := for2 (rows a) (cols b)
                        (\<lambda>i j d. store d i j
                           (foldl (\<lambda>sum k. sum + data a ! i ! k * data b ! k ! j) 0
                              [0..<nat (cols a)]))
                        (data result)\<rparr>))
      | _ \<Rightarrow> None)"

definition matrix_add ::
  "'a runtime \<Rightarrow> ('a::{zero,plus}) Matrix option \<Rightarrow> 'a Matrix option \<Rightarrow> 'a Matrix option" where
  "matrix_add rt ap bp =
     (case (ap, bp) of
        (Some a, Some b) \<Rightarrow>
          if rows a \<noteq> rows b \<or> cols a \<noteq> cols b then None
          else (case matrix_create rt (rows a) (cols a) of
                  None \<Rightarrow> None
                | Some result \<Rightarrow>
                    Some (result\<lparr>data := for2 (rows a) (cols a)
                        (\<lambda>i j d. store d i j (data a ! i ! j + data b ! i ! j))
                        (data result)\<rparr>))
      | _ \<Rightarrow> None)"

definition matrix_subtract ::
  "'a runtime \<Rightarrow> ('a::{zero,minus}) Matrix option \<Rightarrow> 'a Matrix option \<Rightarrow> 'a Matrix option" where
  "matrix_subtract rt ap bp =
     (case (ap, bp) of
        (Some a, Some b) \<Rightarrow>
          if rows a \<noteq> rows b \<or> cols a \<noteq> cols b then None
          else (case matrix_create rt (rows a) (cols a) of
                  None \<Rightarrow> None
                | Some result \<Rightarrow>
                    Some (result\<lparr>data := for2 (rows a) (cols a)
                        (\<lambda>i j d. store d i j (data a ! i ! j - data b ! i ! j))
                        (data result)\<rparr>))
      | _ \<Rightarrow> None)"

definition matrix_transpose :: "'a runtime \<Rightarrow> ('a::zero) Matrix option \<Rightarrow> 'a Matrix option" where
  "matrix_transpose rt mp =
     (case mp of
        None \<Rightarrow> None
      | Some m \<Rightarrow>
          (case matrix_create rt (cols m) (rows m) of
             None \<Rightarrow> None
           | Some result \<Rightarrow>
               Some (result\<lparr>data := for2 (rows m) (cols m)
                   (\<lambda>i j d. store d j i (data m ! i ! j)) (data result)\<rparr>)))"

definition matrix_scale :: "('a::times) Matrix option \<Rightarrow> 'a \<Rightarrow> 'a Matrix option" where
  "matrix_scale mp scalar =
     (case mp of
        None \<Rightarrow> None
      | Some m \<Rightarrow>
          Some (m\<lparr>data := for2 (rows m) (cols m)
                            (\<lambda>i j d. store d i j (d ! i ! j * scalar)) (data m)\<rparr>))"

definition sigmoid :: "'a runtime \<Rightarrow> ('a::{one,plus,uminus,inverse}) \<Rightarrow> 'a" where
  "sigmoid rt x = 1 / (1 + libm_exp rt (- x))"

definition tanh_activation :: "'a runtime \<Rightarrow> 'a \<Rightarrow> 'a" where
  "tanh_activation rt x = libm_tanh rt x"

definition apply_sigmoid ::
  "'a runtime \<Rightarrow> ('a::{one,plus,uminus,inverse}) Matrix option \<Rightarrow> 'a Matrix option" where
  "apply_sigmoid rt mp =
     (case mp of
        None \<Rightarrow> None
      | Some m \<Rightarrow>
          Some (m\<lparr>data := for2 (rows m) (cols m)
                            (\<lambda>i j d. store d i j (sigmoid rt (d ! i ! j))) (data m)\<rparr>))"

definition apply_tanh :: "'a runtime \<Rightarrow> 'a Matrix option \<Rightarrow> 'a Matrix option" where
  "apply_tanh rt mp =
     (case mp of
        None \<Rightarrow> None
      | Some m \<Rightarrow>
          Some (m\<lparr>data := for2 (rows m) (cols m)
                            (\<lambda>i j d. store d i j (tanh_activation rt (d ! i ! j))) (data m)\<rparr>))"


section \<open>Weather data (weather_data.h, weather_data.c)\<close>

record 'a WeatherPoint =
  temperature :: 'a
  pressure :: 'a
  humidity :: 'a
  wind_speed :: 'a
  wind_direction :: 'a
  precipitation :: 'a

text \<open>\<^verbatim>\<open>typedef struct { WeatherPoint* data; int size; int capacity; } WeatherDataset;\<close>
  The buffer holds at least \<open>wd_size\<close> points.\<close>

record 'a WeatherDataset =
  wd_data :: "'a WeatherPoint list"
  wd_size :: int
  wd_capacity :: int


record 'a NormalizationParams =
  temp_min :: 'a
  temp_max :: 'a
  pressure_min :: 'a
  pressure_max :: 'a
  humidity_min :: 'a
  humidity_max :: 'a
  wind_speed_min :: 'a
  wind_speed_max :: 'a
  wind_dir_min :: 'a
  wind_dir_max :: 'a
  precip_min :: 'a
  precip_max :: 'a

definition weather_point_to_matrix ::
  "'a runtime \<Rightarrow> ('a::zero) WeatherPoint option \<Rightarrow> 'a Matrix option" where
  "weather_point_to_matrix rt pp =
     (case pp of
        None \<Rightarrow> None
      | Some point \<Rightarrow>
          (case matrix_create rt 6 1 of
             None \<Rightarrow> None
           | Some m \<Rightarrow>
               let d0 = store (data m) 0 0 (temperature point);
                   d1 = store d0 1 0 (pressure point);
                   d2 = store d1 2 0 (humidity point);
                   d3 = store d2 3 0 (wind_speed point);
                   d4 = store d3 4 0 (wind_direction point);
                   d5 = store d4 5 0 (precipitation point)
               in Some (m\<lparr>data := d5\<rparr>)))"

text \<open>\<^verbatim>\<open>WeatherPoint point = {0};\<close>\<close>

definition zero_point :: "('a::zero) WeatherPoint" where
  "zero_point = \<lparr>temperature = 0, pressure = 0, humidity = 0, wind_speed = 0,
     wind_direction = 0, precipitation = 0\<rparr>"

definition matrix_to_weather_point :: "('a::zero) Matrix option \<Rightarrow> 'a WeatherPoint" where
  "matrix_to_weather_point mp =
     (case mp of
        None \<Rightarrow> zero_point
      | Some m \<Rightarrow>
          if rows m \<noteq> 6 \<or> cols m \<noteq> 1 then zero_point
          else \<lparr>temperature = data m ! 0 ! 0, pressure = data m ! 1 ! 0,
                 humidity = data m ! 2 ! 0, wind_speed = data m ! 3 ! 0,
                 wind_direction = data m ! 4 ! 0, precipitation = data m ! 5 ! 0\<rparr>)"

section \<open>The LSTM cell (lstm.h, lstm.c)\<close>

record 'a LSTMCell =
  input_size :: int
  hidden_size :: int
  W_f :: "'a Matrix option"
  W_i :: "'a Matrix option"
  W_c :: "'a Matrix option"
  W_o :: "'a Matrix option"
  U_f :: "'a Matrix option"
  U_i :: "'a Matrix option"
  U_c :: "'a Matrix option"
  U_o :: "'a Matrix option"
  b_f :: "'a Matrix option"
  b_i :: "'a Matrix option"
  b_c :: "'a Matrix option"
  b_o :: "'a Matrix option"
  cell_state :: "'a Matrix option"
  hidden_state :: "'a Matrix option"
  forget_gate :: "'a Matrix option"
  input_gate :: "'a Matrix option"
  candidate_gate :: "'a Matrix option"
  output_gate :: "'a Matrix option"

text \<open>
  Where the source dereferences a matrix pointer without testing it, a \<^verbatim>\<open>NULL\<close> pointer
  is a memory fault. A computation that can fault returns an \<open>option\<close> whose \<open>None\<close> is
  the fault; \<open>rd\<close> and \<open>wr\<close> are \<^verbatim>\<open>p->data[i][j]\<close> read and written.
\<close>

definition rd :: "'a Matrix option \<Rightarrow> nat \<Rightarrow> nat \<Rightarrow> 'a option" where
  "rd p i j = (case p of None \<Rightarrow> None | Some m \<Rightarrow> Some (data m ! i ! j))"

definition wr :: "'a Matrix option \<Rightarrow> nat \<Rightarrow> nat \<Rightarrow> 'a \<Rightarrow> 'a Matrix option option" where
  "wr p i j v = (case p of None \<Rightarrow> None | Some m \<Rightarrow> Some (Some (m\<lparr>data := store (data m) i j v\<rparr>)))"

text \<open>\<^verbatim>\<open>for (int i = 0; i < n; i++) body\<close>, where the body can fault (or return early).\<close>

definition for1 :: "int \<Rightarrow> (nat \<Rightarrow> 's \<Rightarrow> 's option) \<Rightarrow> 's \<Rightarrow> 's option" where
  "for1 n body s = foldl (\<lambda>r i. Option.bind r (body i)) (Some s) [0..<nat n]"

definition lstm_cell_reset_state :: "('a::zero) LSTMCell option \<Rightarrow> 'a LSTMCell option" where
  "lstm_cell_reset_state cellp =
     (case cellp of
        None \<Rightarrow> None
      | Some cell \<Rightarrow>
          Some (cell\<lparr>cell_state := matrix_zero (cell_state cell),
                      hidden_state := matrix_zero (hidden_state cell)\<rparr>))"

text \<open>The four temporaries of one gate: \<^verbatim>\<open>W_x = W * input\<close>, \<^verbatim>\<open>U_h = U * hidden_state\<close>,
  \<^verbatim>\<open>temp = W_x + U_h\<close>, \<^verbatim>\<open>temp2 = temp + b\<close>. The source writes them out once per gate.\<close>

definition gate_temp2 ::
  "'a runtime \<Rightarrow> ('a::{zero,plus,times}) Matrix option \<Rightarrow> 'a Matrix option \<Rightarrow> 'a Matrix option
     \<Rightarrow> 'a Matrix option \<Rightarrow> 'a Matrix option \<Rightarrow> 'a Matrix option" where
  "gate_temp2 rt W U b hidden input =
     (let W_x = matrix_multiply rt W input;
          U_h = matrix_multiply rt U hidden;
          temp = matrix_add rt W_x U_h
      in matrix_add rt temp b)"

definition lstm_cell_forward ::
  "'a runtime \<Rightarrow> ('a::{zero,one,plus,uminus,times,inverse}) LSTMCell option \<Rightarrow> 'a Matrix option
     \<Rightarrow> ('a LSTMCell option \<times> 'a Matrix option) option" where
  "lstm_cell_forward rt cellp input =
     (case (cellp, input) of
        (Some cell, Some _) \<Rightarrow>
          let f_temp2 = gate_temp2 rt (W_f cell) (U_f cell) (b_f cell) (hidden_state cell) input;
              forget_gate' = apply_sigmoid rt (matrix_copy (forget_gate cell) f_temp2);
              i_temp2 = gate_temp2 rt (W_i cell) (U_i cell) (b_i cell) (hidden_state cell) input;
              input_gate' = apply_sigmoid rt (matrix_copy (input_gate cell) i_temp2);
              c_temp2 = gate_temp2 rt (W_c cell) (U_c cell) (b_c cell) (hidden_state cell) input;
              candidate_gate' = apply_tanh rt (matrix_copy (candidate_gate cell) c_temp2);
              o_temp2 = gate_temp2 rt (W_o cell) (U_o cell) (b_o cell) (hidden_state cell) input;
              output_gate' = apply_sigmoid rt (matrix_copy (output_gate cell) o_temp2);
              forget_cell = matrix_create rt (hidden_size cell) 1;
              input_candidate = matrix_create rt (hidden_size cell) 1
          in do {
            (forget_cell', input_candidate', cell_state') \<leftarrow>
              for1 (hidden_size cell)
                (\<lambda>i (fc, ic, cs). do {
                   f \<leftarrow> rd forget_gate' i 0;
                   c \<leftarrow> rd cs i 0;
                   fc' \<leftarrow> wr fc i 0 (f * c);
                   g \<leftarrow> rd input_gate' i 0;
                   t \<leftarrow> rd candidate_gate' i 0;
                   ic' \<leftarrow> wr ic i 0 (g * t);
                   x \<leftarrow> rd fc' i 0;
                   y \<leftarrow> rd ic' i 0;
                   cs' \<leftarrow> wr cs i 0 (x + y);
                   Some (fc', ic', cs')
                 })
                (forget_cell, input_candidate, cell_state cell);
            let cell_tanh = apply_tanh rt (matrix_copy (matrix_create rt (hidden_size cell) 1) cell_state');
            hidden_state' \<leftarrow>
              for1 (hidden_size cell)
                (\<lambda>i hs. do {
                   x \<leftarrow> rd output_gate' i 0;
                   y \<leftarrow> rd cell_tanh i 0;
                   wr hs i 0 (x * y)
                 })
                (hidden_state cell);
            let output = matrix_copy (matrix_create rt (hidden_size cell) 1) hidden_state';
            Some (Some (cell\<lparr>forget_gate := forget_gate', input_gate := input_gate',
                             candidate_gate := candidate_gate', output_gate := output_gate',
                             cell_state := cell_state', hidden_state := hidden_state'\<rparr>),
                  output)
          }
      | _ \<Rightarrow> Some (cellp, None))"

section \<open>The network: one cell and an output projection\<close>

record 'a LSTMNetwork =
  lstm_layer :: "'a LSTMCell option"
  W_output :: "'a Matrix option"
  b_output :: "'a Matrix option"
  net_input_size :: int
  net_hidden_size :: int
  output_size :: int
  learning_rate :: 'a
  sequence_length :: int
  norm_params :: "'a NormalizationParams option"

definition initialize_weights ::
  "'a runtime \<Rightarrow> rng \<Rightarrow> ('a::{plus,minus,uminus,times,inverse}) Matrix option \<Rightarrow> 'a
     \<Rightarrow> 'a Matrix option \<times> rng" where
  "initialize_weights rt g mp scale =
     (case mp of
        None \<Rightarrow> (None, g)
      | Some m \<Rightarrow>
          let limit = libm_sqrt rt (to_double rt 6 / to_double rt (of_int (rows m + cols m))) * scale
          in matrix_random rt g mp (- limit) limit)"



definition lstm_network_reset :: "('a::zero) LSTMNetwork option \<Rightarrow> 'a LSTMNetwork option" where
  "lstm_network_reset np =
     (case np of
        None \<Rightarrow> None
      | Some network \<Rightarrow> Some (network\<lparr>lstm_layer := lstm_cell_reset_state (lstm_layer network)\<rparr>))"

text \<open>\<^verbatim>\<open>sequence\<close> is an array of matrix pointers; reading it past its end is a fault.
  Freeing the previous \<^verbatim>\<open>hidden_output\<close> leaves no trace in the state.\<close>

definition lstm_network_predict ::
  "'a runtime \<Rightarrow> ('a::{zero,one,plus,uminus,times,inverse}) LSTMNetwork option
     \<Rightarrow> 'a Matrix option list option \<Rightarrow> int
     \<Rightarrow> ('a LSTMNetwork option \<times> 'a Matrix option) option" where
  "lstm_network_predict rt np sequence seq_length =
     (case (np, sequence) of
        (Some _, Some sq) \<Rightarrow>
          do {
            network \<leftarrow> lstm_network_reset np;
            (layer, hidden_output) \<leftarrow>
              for1 seq_length
                (\<lambda>t (layer, hidden_output).
                   if t < length sq then lstm_cell_forward rt layer (sq ! t) else None)
                (lstm_layer network, None);
            let network' = network\<lparr>lstm_layer := layer\<rparr>;
            (case hidden_output of
               None \<Rightarrow> Some (Some network', None)
             | Some _ \<Rightarrow>
                 let output_temp = matrix_multiply rt (W_output network') hidden_output;
                     output = matrix_add rt output_temp (b_output network')
                 in Some (Some network', output))
          }
      | _ \<Rightarrow> Some (np, None))"

section \<open>Training data and the trainer\<close>

record 'a TrainingData =
  inputs :: "'a Matrix option list list"
  targets :: "'a Matrix option list"
  num_sequences :: int
  td_sequence_length :: int


text \<open>One pass of the inner loop of \<^verbatim>\<open>lstm_train\<close>. The loss only reaches \<^verbatim>\<open>printf\<close> and is
  left out.\<close>

definition train_on_pair ::
  "'a runtime \<Rightarrow> ('a::{zero,one,plus,minus,uminus,times,inverse}) TrainingData \<Rightarrow> nat
     \<Rightarrow> 'a LSTMNetwork \<Rightarrow> 'a LSTMNetwork option" where
  "train_on_pair rt dat sq network0 =
     do {
       (np, prediction) \<leftarrow>
         lstm_network_predict rt (Some network0) (Some (inputs dat ! sq)) (td_sequence_length dat);
       network \<leftarrow> np;
       (case prediction of
          None \<Rightarrow> Some network
        | Some _ \<Rightarrow>
            do {
              let error = matrix_subtract rt (targets dat ! sq) prediction;
              let error = matrix_scale error (learning_rate network);
              layer \<leftarrow> lstm_layer network;
              let hidden_transpose = matrix_transpose rt (hidden_state layer);
              let weight_update = matrix_multiply rt error hidden_transpose;
              let new_weights = matrix_add rt (W_output network) weight_update;
              Some (network\<lparr>W_output := matrix_copy (W_output network) new_weights\<rparr>)
            })
     }"

definition lstm_train ::
  "'a runtime \<Rightarrow> ('a::{zero,one,plus,minus,uminus,times,inverse}) LSTMNetwork option
     \<Rightarrow> 'a TrainingData option \<Rightarrow> int \<Rightarrow> 'a LSTMNetwork option option" where
  "lstm_train rt np dp epochs =
     (case (np, dp) of
        (Some network, Some dat) \<Rightarrow>
          map_option Some
            (for1 epochs
               (\<lambda>epoch. for1 (num_sequences dat) (\<lambda>sq. train_on_pair rt dat sq))
               network)
      | _ \<Rightarrow> Some np)"

definition lstm_predict_next ::
  "'a runtime \<Rightarrow> ('a::{zero,one,plus,uminus,times,inverse}) LSTMNetwork option
     \<Rightarrow> 'a WeatherDataset option \<Rightarrow> int
     \<Rightarrow> ('a LSTMNetwork option \<times> 'a WeatherPoint) option" where
  "lstm_predict_next rt np dsp seq_length =
     (let result = zero_point in
      case (np, dsp) of
        (Some network, Some recent_data) \<Rightarrow>
          if wd_size recent_data < seq_length then Some (np, result)
          else if \<not> malloc_array rt seq_length sizeof_ptr then Some (np, result)
          else
            let start_idx = wd_size recent_data - seq_length;
                sq = map (\<lambda>i. weather_point_to_matrix rt
                                 (Some (wd_data recent_data ! (nat start_idx + i))))
                       [0..<nat seq_length]
            in do {
              (np', prediction) \<leftarrow> lstm_network_predict rt np (Some sq) seq_length;
              Some (np', case prediction of
                           None \<Rightarrow> result
                         | Some _ \<Rightarrow> matrix_to_weather_point prediction)
            }
      | _ \<Rightarrow> Some (np, result))"

section \<open>Model files\<close>













section \<open>The allocating matrix operations over a store\<close>

text \<open>
  So far a matrix is a value and a function returns the objects it has changed. To say
  which objects a function leaves alone, \<^verbatim>\<open>matrix_multiply\<close>, \<^verbatim>\<open>matrix_add\<close>,
  \<^verbatim>\<open>matrix_subtract\<close> and \<^verbatim>\<open>matrix_transpose\<close> are written once more over a store: a map
  from addresses to matrices with the first address never handed out. A pointer is an
  address or \<^verbatim>\<open>NULL\<close>; every read and write of the source goes through the store. The
  outer \<open>None\<close> of a result is the fault of a pointer that is neither \<^verbatim>\<open>NULL\<close> nor allocated.
\<close>

record 'a heap =
  objs :: "nat \<Rightarrow> 'a Matrix option"
  brk :: nat

definition wf_heap :: "'a heap \<Rightarrow> bool" where
  "wf_heap h \<longleftrightarrow> (\<forall>p\<ge>brk h. objs h p = None)"

definition mrows :: "'a heap \<Rightarrow> nat \<Rightarrow> int" where
  "mrows h p = rows (the (objs h p))"

definition mcols :: "'a heap \<Rightarrow> nat \<Rightarrow> int" where
  "mcols h p = cols (the (objs h p))"

definition peek :: "'a heap \<Rightarrow> nat \<Rightarrow> nat \<Rightarrow> nat \<Rightarrow> 'a" where
  "peek h p i j = data (the (objs h p)) ! i ! j"

definition poke :: "'a heap \<Rightarrow> nat \<Rightarrow> nat \<Rightarrow> nat \<Rightarrow> 'a \<Rightarrow> 'a heap" where
  "poke h p i j v =
     h\<lparr>objs := (objs h)(p \<mapsto> (the (objs h p))\<lparr>data := store (data (the (objs h p))) i j v\<rparr>)\<rparr>"

definition matrix_create_st ::
  "'a runtime \<Rightarrow> ('a::zero) heap \<Rightarrow> int \<Rightarrow> int \<Rightarrow> nat option \<times> 'a heap" where
  "matrix_create_st rt h r c =
     (case matrix_create rt r c of
        None \<Rightarrow> (None, h)
      | Some m \<Rightarrow> (Some (brk h), h\<lparr>objs := (objs h)(brk h \<mapsto> m), brk := Suc (brk h)\<rparr>))"

definition matrix_multiply_st ::
  "'a runtime \<Rightarrow> ('a::{zero,plus,times}) heap \<Rightarrow> nat option \<Rightarrow> nat option
     \<Rightarrow> (nat option \<times> 'a heap) option" where
  "matrix_multiply_st rt h ap bp =
     (case (ap, bp) of
        (Some a, Some b) \<Rightarrow>
          if objs h a = None \<or> objs h b = None then None
          else if mcols h a \<noteq> mrows h b then Some (None, h)
          else (case matrix_create_st rt h (mrows h a) (mcols h b) of
                  (None, h') \<Rightarrow> Some (None, h')
                | (Some result, h') \<Rightarrow>
                    Some (Some result,
                      for2 (mrows h' a) (mcols h' b)
                        (\<lambda>i j h. poke h result i j
                           (foldl (\<lambda>sum k. sum + peek h a i k * peek h b k j) 0
                              [0..<nat (mcols h a)]))
                        h'))
      | _ \<Rightarrow> Some (None, h))"

definition matrix_add_st ::
  "'a runtime \<Rightarrow> ('a::{zero,plus}) heap \<Rightarrow> nat option \<Rightarrow> nat option
     \<Rightarrow> (nat option \<times> 'a heap) option" where
  "matrix_add_st rt h ap bp =
     (case (ap, bp) of
        (Some a, Some b) \<Rightarrow>
          if objs h a = None \<or> objs h b = None then None
          else if mrows h a \<noteq> mrows h b \<or> mcols h a \<noteq> mcols h b then Some (None, h)
          else (case matrix_create_st rt h (mrows h a) (mcols h a) of
                  (None, h') \<Rightarrow> Some (None, h')
                | (Some result, h') \<Rightarrow>
                    Some (Some result,
                      for2 (mrows h' a) (mcols h' a)
                        (\<lambda>i j h. poke h result i j (peek h a i j + peek h b i j))
                        h'))
      | _ \<Rightarrow> Some (None, h))"

definition matrix_subtract_st ::
  "'a runtime \<Rightarrow> ('a::{zero,minus}) heap \<Rightarrow> nat option \<Rightarrow> nat option
     \<Rightarrow> (nat option \<times> 'a heap) option" where
  "matrix_subtract_st rt h ap bp =
     (case (ap, bp) of
        (Some a, Some b) \<Rightarrow>
          if objs h a = None \<or> objs h b = None then None
          else if mrows h a \<noteq> mrows h b \<or> mcols h a \<noteq> mcols h b then Some (None, h)
          else (case matrix_create_st rt h (mrows h a) (mcols h a) of
                  (None, h') \<Rightarrow> Some (None, h')
                | (Some result, h') \<Rightarrow>
                    Some (Some result,
                      for2 (mrows h' a) (mcols h' a)
                        (\<lambda>i j h. poke h result i j (peek h a i j - peek h b i j))
                        h'))
      | _ \<Rightarrow> Some (None, h))"

definition matrix_transpose_st ::
  "'a runtime \<Rightarrow> ('a::zero) heap \<Rightarrow> nat option \<Rightarrow> (nat option \<times> 'a heap) option" where
  "matrix_transpose_st rt h mp =
     (case mp of
        None \<Rightarrow> Some (None, h)
      | Some m \<Rightarrow>
          if objs h m = None then None
          else (case matrix_create_st rt h (mcols h m) (mrows h m) of
                  (None, h') \<Rightarrow> Some (None, h')
                | (Some result, h') \<Rightarrow>
                    Some (Some result,
                      for2 (mrows h' m) (mcols h' m)
                        (\<lambda>i j h. poke h result j i (peek h m i j))
                        h')))"

text \<open>What a call leaves alone: every object allocated before the call is the same
  after it; and a result that is not \<^verbatim>\<open>NULL\<close> is an address that was free before the call
  and holds an object after it.\<close>

definition preserves :: "'a heap \<Rightarrow> 'a heap \<Rightarrow> bool" where
  "preserves h h' \<longleftrightarrow> (\<forall>p. objs h p \<noteq> None \<longrightarrow> objs h' p = objs h p)"

definition fresh_result :: "'a heap \<Rightarrow> 'a heap \<Rightarrow> nat option \<Rightarrow> bool" where
  "fresh_result h h' res \<longleftrightarrow>
     (case res of None \<Rightarrow> True | Some r \<Rightarrow> objs h r = None \<and> objs h' r \<noteq> None)"

text \<open>The outcome of an allocating operation whose result on values is \<open>v\<close>: \<^verbatim>\<open>NULL\<close>
  and the same store, or the first free address and the store with \<open>v\<close> put there.\<close>

definition placed :: "'a heap \<Rightarrow> 'a Matrix option \<Rightarrow> (nat option \<times> 'a heap) option" where
  "placed h v =
     (case v of
        None \<Rightarrow> Some (None, h)
      | Some R \<Rightarrow> Some (Some (brk h), h\<lparr>objs := (objs h)(brk h \<mapsto> R), brk := Suc (brk h)\<rparr>))"

section \<open>Assumptions on the environment and on the inputs\<close>

text \<open>The allocator grants every request below 32 GiB: enough for any matrix whose
  dimensions are \<^verbatim>\<open>int\<close>s.\<close>

definition enough_memory :: "'a runtime \<Rightarrow> bool" where
  "enough_memory rt \<longleftrightarrow> (\<forall>n<2 ^ 35. malloc_ok rt n)"

definition has_shape :: "'a Matrix option \<Rightarrow> int \<Rightarrow> int \<Rightarrow> bool" where
  "has_shape p r c \<longleftrightarrow>
     (case p of None \<Rightarrow> False | Some m \<Rightarrow> wf_matrix m \<and> rows m = r \<and> cols m = c)"

text \<open>A cell as \<^verbatim>\<open>lstm_cell_create\<close> builds it: no pointer is \<^verbatim>\<open>NULL\<close>, the input weights are
  \<open>hidden_size \<times> input_size\<close>, the recurrent weights \<open>hidden_size \<times> hidden_size\<close>, the biases,
  the two states and the four gate buffers \<open>hidden_size \<times> 1\<close>.\<close>

definition wf_cell :: "'a LSTMCell \<Rightarrow> bool" where
  "wf_cell cell \<longleftrightarrow>
     has_shape (W_f cell) (hidden_size cell) (input_size cell) \<and>
     has_shape (W_i cell) (hidden_size cell) (input_size cell) \<and>
     has_shape (W_c cell) (hidden_size cell) (input_size cell) \<and>
     has_shape (W_o cell) (hidden_size cell) (input_size cell) \<and>
     has_shape (U_f cell) (hidden_size cell) (hidden_size cell) \<and>
     has_shape (U_i cell) (hidden_size cell) (hidden_size cell) \<and>
     has_shape (U_c cell) (hidden_size cell) (hidden_size cell) \<and>
     has_shape (U_o cell) (hidden_size cell) (hidden_size cell) \<and>
     has_shape (b_f cell) (hidden_size cell) 1 \<and>
     has_shape (b_i cell) (hidden_size cell) 1 \<and>
     has_shape (b_c cell) (hidden_size cell) 1 \<and>
     has_shape (b_o cell) (hidden_size cell) 1 \<and>
     has_shape (cell_state cell) (hidden_size cell) 1 \<and>
     has_shape (hidden_state cell) (hidden_size cell) 1 \<and>
     has_shape (forget_gate cell) (hidden_size cell) 1 \<and>
     has_shape (input_gate cell) (hidden_size cell) 1 \<and>
     has_shape (candidate_gate cell) (hidden_size cell) 1 \<and>
     has_shape (output_gate cell) (hidden_size cell) 1"

text \<open>A network as \<^verbatim>\<open>lstm_network_create\<close> builds it.\<close>

definition wf_network :: "'a LSTMNetwork \<Rightarrow> bool" where
  "wf_network network \<longleftrightarrow>
     (case lstm_layer network of
        None \<Rightarrow> False
      | Some cell \<Rightarrow>
          wf_cell cell \<and> input_size cell = net_input_size network \<and>
          hidden_size cell = net_hidden_size network) \<and>
     has_shape (W_output network) (output_size network) (net_hidden_size network) \<and>
     has_shape (b_output network) (output_size network) 1"

section \<open>The forward step in the words of the specification\<close>

text \<open>The column matrix of a vector, the rows behind a matrix pointer, and the vector
  behind a pointer to a column matrix.\<close>

definition column :: "'a list \<Rightarrow> 'a Matrix" where
  "column v = \<lparr>data = map (\<lambda>x. [x]) v, rows = int (length v), cols = 1\<rparr>"

definition entries :: "'a Matrix option \<Rightarrow> 'a list list" where
  "entries p = (case p of None \<Rightarrow> [] | Some m \<Rightarrow> data m)"

definition vec :: "'a Matrix option \<Rightarrow> 'a list" where
  "vec p = map (\<lambda>r. r ! 0) (entries p)"

text \<open>\<open>\<Sum>\<^sub>k r[k] * v[k]\<close>, summed from \<open>0.0\<close> in the order of \<open>k\<close>.\<close>

definition dot :: "('a::{zero,plus,times}) list \<Rightarrow> 'a list \<Rightarrow> 'a" where
  "dot r v = foldl (\<lambda>s k. s + r ! k * v ! k) 0 [0..<length r]"

text \<open>\<open>pre_g = W_g\<cdot>input + U_g\<cdot>hidden_state + b_g\<close>, component \<open>i\<close>.\<close>

definition pre_activation ::
  "('a::{zero,plus,times}) Matrix option \<Rightarrow> 'a Matrix option \<Rightarrow> 'a Matrix option
     \<Rightarrow> 'a list \<Rightarrow> 'a list \<Rightarrow> nat \<Rightarrow> 'a" where
  "pre_activation W U b x h i = (dot (entries W ! i) x + dot (entries U ! i) h) + vec b ! i"

text \<open>
  The specification's forward step on input vector \<open>x\<close>: the gates are the sigmoid of the
  forget, input and output pre-activations and the tanh of the candidate pre-activation;
  \<open>cell_state[i] = forget[i] * cell_state[i] + input_gate[i] * candidate[i]\<close>;
  \<open>hidden_state[i] = output_gate[i] * tanh(cell_state[i])\<close>. The weights are not touched.
\<close>

definition spec_forward ::
  "'a runtime \<Rightarrow> ('a::{zero,one,plus,uminus,times,inverse}) LSTMCell \<Rightarrow> 'a list \<Rightarrow> 'a LSTMCell" where
  "spec_forward rt cell x =
     (let n = nat (hidden_size cell);
          h = vec (hidden_state cell);
          c = vec (cell_state cell);
          f = (\<lambda>i. sigmoid rt (pre_activation (W_f cell) (U_f cell) (b_f cell) x h i));
          ig = (\<lambda>i. sigmoid rt (pre_activation (W_i cell) (U_i cell) (b_i cell) x h i));
          g = (\<lambda>i. tanh_activation rt (pre_activation (W_c cell) (U_c cell) (b_c cell) x h i));
          og = (\<lambda>i. sigmoid rt (pre_activation (W_o cell) (U_o cell) (b_o cell) x h i));
          c' = (\<lambda>i. f i * c ! i + ig i * g i);
          h' = (\<lambda>i. og i * tanh_activation rt (c' i))
      in cell\<lparr>forget_gate := Some (column (map f [0..<n])),
               input_gate := Some (column (map ig [0..<n])),
               candidate_gate := Some (column (map g [0..<n])),
               output_gate := Some (column (map og [0..<n])),
               cell_state := Some (column (map c' [0..<n])),
               hidden_state := Some (column (map h' [0..<n]))\<rparr>)"

text \<open>\<open>reset()\<close>: cell state and hidden state become \<open>0\<close>.\<close>

definition spec_reset :: "('a::zero) LSTMCell \<Rightarrow> 'a LSTMCell" where
  "spec_reset cell =
     cell\<lparr>cell_state := Some (column (replicate (nat (hidden_size cell)) 0)),
          hidden_state := Some (column (replicate (nat (hidden_size cell)) 0))\<rparr>"

text \<open>The cell after a reset and one forward step per input vector, in order.\<close>

definition spec_run ::
  "'a runtime \<Rightarrow> ('a::{zero,one,plus,uminus,times,inverse}) LSTMCell \<Rightarrow> 'a list list \<Rightarrow> 'a LSTMCell" where
  "spec_run rt cell xs = foldl (spec_forward rt) (spec_reset cell) xs"

text \<open>\<open>output = W_output\<cdot>hidden_last + b_output\<close>, a column of \<open>output_size\<close> components.\<close>

definition spec_output ::
  "('a::{zero,plus,times}) LSTMNetwork \<Rightarrow> 'a list \<Rightarrow> 'a Matrix" where
  "spec_output network h =
     column (map (\<lambda>i. dot (entries (W_output network) ! i) h + vec (b_output network) ! i)
               [0..<nat (output_size network)])"

section \<open>The trainer in the words of the specification\<close>

text \<open>Everything of a cell that is a weight or a size, and everything of a network other
  than \<open>W_output\<close> and the states and gate buffers of its cell.\<close>

definition cell_weights :: "'a LSTMCell option \<Rightarrow> (int \<times> int \<times> 'a Matrix option list) option" where
  "cell_weights cp =
     map_option
       (\<lambda>c. (input_size c, hidden_size c,
             [W_f c, W_i c, W_c c, W_o c, U_f c, U_i c, U_c c, U_o c, b_f c, b_i c, b_c c, b_o c]))
       cp"

definition untrained ::
  "'a LSTMNetwork \<Rightarrow> (int \<times> int \<times> 'a Matrix option list) option \<times> 'a Matrix option \<times>
     int \<times> int \<times> int \<times> 'a \<times> int \<times> 'a NormalizationParams option" where
  "untrained network =
     (cell_weights (lstm_layer network), b_output network, net_input_size network,
      net_hidden_size network, output_size network, learning_rate network,
      sequence_length network, norm_params network)"

text \<open>\<open>W_output += (scaled_error) \<cdot> hidden_state_at_last_step\<^sup>T\<close> with the error
  \<open>target - predicted\<close> scaled by the learning rate. Entry \<open>(i, j)\<close> of the product is a sum
  of one term, taken from \<open>0.0\<close> as every sum of \<^verbatim>\<open>matrix_multiply\<close> is.\<close>

definition spec_weight_update ::
  "('a::{zero,plus,minus,times}) LSTMNetwork \<Rightarrow> 'a list \<Rightarrow> 'a list \<Rightarrow> 'a list \<Rightarrow> 'a Matrix" where
  "spec_weight_update network target predicted h =
     \<lparr>data = map (\<lambda>i. map (\<lambda>j. entries (W_output network) ! i ! j
                                 + (0 + (target ! i - predicted ! i) * learning_rate network * h ! j))
                          [0..<nat (net_hidden_size network)])
              [0..<nat (output_size network)],
      rows = output_size network, cols = net_hidden_size network\<rparr>"

text \<open>Training data as \<^verbatim>\<open>create_training_data\<close> builds it, for a given network: windows of
  \<open>td_sequence_length \<ge> 1\<close> input columns and one target column of \<open>output_size\<close> rows.\<close>

definition wf_training_data :: "'a LSTMNetwork \<Rightarrow> 'a TrainingData \<Rightarrow> bool" where
  "wf_training_data network dat \<longleftrightarrow>
     1 \<le> td_sequence_length dat \<and>
     nat (num_sequences dat) \<le> length (inputs dat) \<and>
     nat (num_sequences dat) \<le> length (targets dat) \<and>
     list_all
       (\<lambda>s. nat (td_sequence_length dat) \<le> length (inputs dat ! s) \<and>
            list_all (\<lambda>t. has_shape (inputs dat ! s ! t) (net_input_size network) 1)
              [0..<nat (td_sequence_length dat)] \<and>
            has_shape (targets dat ! s) (output_size network) 1)
       [0..<nat (num_sequences dat)]"

text \<open>One training pair: predict with the current weights, then update \<open>W_output\<close> only.
  The cell keeps the states and gates of the prediction.\<close>

definition spec_train_on_pair ::
  "'a runtime \<Rightarrow> ('a::{zero,one,plus,minus,uminus,times,inverse}) TrainingData \<Rightarrow> 'a LSTMNetwork
     \<Rightarrow> nat \<Rightarrow> 'a LSTMNetwork" where
  "spec_train_on_pair rt dat network s =
     (case lstm_layer network of
        None \<Rightarrow> network
      | Some cell \<Rightarrow>
          let cell' = spec_run rt cell (map vec (take (nat (td_sequence_length dat)) (inputs dat ! s)));
              h = vec (hidden_state cell');
              predicted = vec (Some (spec_output network h))
          in network\<lparr>lstm_layer := Some cell',
                      W_output := Some (spec_weight_update network (vec (targets dat ! s))
                                          predicted h)\<rparr>)"

text \<open>For each epoch, for each pair in order.\<close>

definition spec_train ::
  "'a runtime \<Rightarrow> ('a::{zero,one,plus,minus,uminus,times,inverse}) LSTMNetwork \<Rightarrow> 'a TrainingData
     \<Rightarrow> int \<Rightarrow> 'a LSTMNetwork" where
  "spec_train rt network dat epochs =
     foldl (\<lambda>network epoch. foldl (spec_train_on_pair rt dat) network [0..<nat (num_sequences dat)])
       network [0..<nat epochs]"

section \<open>The model file in the words of the specification\<close>


text \<open>A feature vector as the column matrix of shape \<open>(6, 1)\<close> that is fed to the
  network, in the words of the specification.\<close>

definition point_matrix :: "'a WeatherPoint \<Rightarrow> 'a Matrix" where
  "point_matrix p =
     \<lparr>data = [[temperature p], [pressure p], [humidity p], [wind_speed p],
              [wind_direction p], [precipitation p]],
      rows = 6, cols = 1\<rparr>"

text \<open>An allocator that grants every request below 128 TiB and refuses the rest, and
  the runtime over the reals used to run the model on concrete inputs.\<close>

definition user_space_alloc :: "nat \<Rightarrow> bool" where
  "user_space_alloc n \<longleftrightarrow> n < 2 ^ 47"

definition real_runtime :: "real runtime" where
  "real_runtime = \<lparr>malloc_ok = user_space_alloc, fopen_w_ok = (\<lambda>name. True),
     libm_exp = exp, libm_tanh = tanh, libm_sqrt = sqrt, to_double = (\<lambda>x. x)\<rparr>"


text \<open>The fixture of \<^verbatim>\<open>test_training_data\<close>: temperature \<open>45 + i\<close>, the other fields
  constant.\<close>

definition test_point :: "nat \<Rightarrow> real WeatherPoint" where
  "test_point i = \<lparr>temperature = 45 + real i, pressure = 30, humidity = 60, wind_speed = 8,
     wind_direction = 180, precipitation = 0\<rparr>"

definition test_dataset :: "nat \<Rightarrow> real WeatherDataset" where
  "test_dataset n = \<lparr>wd_data = map test_point [0..<n], wd_size = int n, wd_capacity = 10\<rparr>"

text \<open>A cell with six inputs and one hidden unit, and a network around it with six
  outputs, for running the model: forget bias \<open>1\<close> as \<^verbatim>\<open>lstm_cell_create\<close> sets it, every
  other weight \<open>0\<close>.\<close>

definition example_cell :: "real LSTMCell" where
  "example_cell =
     \<lparr>input_size = 6, hidden_size = 1,
      W_f = Some \<lparr>data = [[0, 0, 0, 0, 0, 0]], rows = 1, cols = 6\<rparr>,
      W_i = Some \<lparr>data = [[0, 0, 0, 0, 0, 0]], rows = 1, cols = 6\<rparr>,
      W_c = Some \<lparr>data = [[0, 0, 0, 0, 0, 0]], rows = 1, cols = 6\<rparr>,
      W_o = Some \<lparr>data = [[0, 0, 0, 0, 0, 0]], rows = 1, cols = 6\<rparr>,
      U_f = Some (column [0]), U_i = Some (column [0]),
      U_c = Some (column [0]), U_o = Some (column [0]),
      b_f = Some (column [1]), b_i = Some (column [0]),
      b_c = Some (column [0]), b_o = Some (column [0]),
      cell_state = Some (column [0]), hidden_state = Some (column [0]),
      forget_gate = Some (column [0]), input_gate = Some (column [0]),
      candidate_gate = Some (column [0]), output_gate = Some (column [0])\<rparr>"

text \<open>What a forward step leaves of \<open>example_cell\<close>, whatever the input.\<close>

definition example_cell_stepped :: "real LSTMCell" where
  "example_cell_stepped =
     example_cell\<lparr>forget_gate := Some (column [1 / (1 + exp (- 1))]),
                   input_gate := Some (column [1 / 2]),
                   candidate_gate := Some (column [0]),
                   output_gate := Some (column [1 / 2]),
                   cell_state := Some (column [0]),
                   hidden_state := Some (column [0])\<rparr>"

text \<open>The three-step sequence of \<^verbatim>\<open>test_lstm_network\<close>, here of the first three fixture
  points.\<close>

definition example_sequence :: "real Matrix option list" where
  "example_sequence = [Some (point_matrix (test_point 0)), Some (point_matrix (test_point 1)),
     Some (point_matrix (test_point 2))]"

definition example_network :: "real LSTMNetwork" where
  "example_network =
     \<lparr>lstm_layer = Some example_cell,
      W_output = Some (column [0, 0, 0, 0, 0, 0]),
      b_output = Some (column [0, 0, 0, 0, 0, 0]),
      net_input_size = 6, net_hidden_size = 1, output_size = 6,
      learning_rate = 1 / 1000, sequence_length = 1, norm_params = None\<rparr>"

text \<open>One training pair for \<open>example_network\<close>: the three-step window and the fourth
  fixture point as target.\<close>

definition example_training_data :: "real TrainingData" where
  "example_training_data =
     \<lparr>inputs = [example_sequence], targets = [Some (point_matrix (test_point 3))],
      num_sequences = 1, td_sequence_length = 3\<rparr>"

text \<open>A store holding one 2 by 2 matrix at address 0, for running the store model.\<close>

definition example_matrix :: "real Matrix" where
  "example_matrix = \<lparr>data = [[1, 2], [3, 4]], rows = 2, cols = 2\<rparr>"

definition example_heap :: "real heap" where
  "example_heap = \<lparr>objs = (\<lambda>p. if p = 0 then Some example_matrix else None), brk = 1\<rparr>"

section \<open>Facts about the store primitive\<close>

lemma store_nth:
  "i < length d \<Longrightarrow> j < length (d ! i) \<Longrightarrow>
   store d i j v ! i' ! j' = (if i' = i \<and> j' = j then v else d ! i' ! j')"
  by (simp add: store_def nth_list_update)

lemma store_length [simp]: "length (store d i j v) = length d"
  by (simp add: store_def)

lemma store_row_length [simp]: "length (store d i j v ! k) = length (d ! k)"
  by (cases "i < length d") (auto simp: store_def nth_list_update list_update_beyond)

section \<open>Loops that store into a matrix\<close>

lemma for2_product:
  "for2 n m body s = foldl (\<lambda>s (i, j). body i j s) s (List.product [0..<nat n] [0..<nat m])"
proof -
  have "foldl (\<lambda>s i. foldl (\<lambda>s j. body i j s) s ys) s xs
      = foldl (\<lambda>s (i, j). body i j s) s (List.product xs ys)" for xs ys
    by (induction xs arbitrary: s) (simp_all add: foldl_map)
  then show ?thesis by (simp add: for2_def)
qed

lemma foldl_store_length [simp]:
  "length (foldl (\<lambda>d x. store d (p x) (q x) (v x d)) d xs) = length d"
  by (induction xs arbitrary: d) simp_all

lemma foldl_store_row_length [simp]:
  "length (foldl (\<lambda>d x. store d (p x) (q x) (v x d)) d xs ! k) = length (d ! k)"
  by (induction xs arbitrary: d) simp_all

lemma foldl_store_other:
  "\<forall>x\<in>set xs. \<not> (p x = i \<and> q x = j) \<Longrightarrow>
   \<forall>x\<in>set xs. p x < length d \<and> q x < length (d ! p x) \<Longrightarrow>
   foldl (\<lambda>d x. store d (p x) (q x) (v x d)) d xs ! i ! j = d ! i ! j"
proof (induction xs arbitrary: d)
  case Nil
  then show ?case by simp
next
  case (Cons x xs)
  let ?d = "store d (p x) (q x) (v x d)"
  have "foldl (\<lambda>d x. store d (p x) (q x) (v x d)) ?d xs ! i ! j = ?d ! i ! j"
    using Cons.prems by (intro Cons.IH) simp_all
  also have "?d ! i ! j = d ! i ! j"
    using Cons.prems by (auto simp: store_nth)
  finally show ?case by simp
qed

lemma foldl_store_hit:
  assumes "distinct (map (\<lambda>x. (p x, q x)) xs)"
    and "\<forall>x\<in>set xs. p x < length d \<and> q x < length (d ! p x)"
    and "x \<in> set xs"
  shows "foldl (\<lambda>d x. store d (p x) (q x) (v x (d ! p x ! q x))) d xs ! p x ! q x
           = v x (d ! p x ! q x)"
  using assms
proof (induction xs arbitrary: d)
  case Nil
  then show ?case by simp
next
  case (Cons y ys)
  let ?d = "store d (p y) (q y) (v y (d ! p y ! q y))"
  let ?F = "foldl (\<lambda>d x. store d (p x) (q x) (v x (d ! p x ! q x)))"
  have inb: "\<forall>z\<in>set ys. p z < length ?d \<and> q z < length (?d ! p z)"
    using Cons.prems(2) by simp
  show ?case
  proof (cases "x = y")
    case True
    have "\<forall>z\<in>set ys. \<not> (p z = p y \<and> q z = q y)"
      using Cons.prems(1) by (force simp: image_iff)
    then have "?F ?d ys ! p y ! q y = ?d ! p y ! q y"
      using inb foldl_store_other [where v = "\<lambda>x d. v x (d ! p x ! q x)"] by blast
    also have "\<dots> = v y (d ! p y ! q y)"
      using Cons.prems(2) by (simp add: store_nth)
    finally show ?thesis using True by simp
  next
    case False
    then have xin: "x \<in> set ys" using Cons.prems(3) by simp
    then have ne: "\<not> (p x = p y \<and> q x = q y)"
      using Cons.prems(1) by (force simp: image_iff)
    have "?F ?d ys ! p x ! q x = v x (?d ! p x ! q x)"
      using Cons.prems(1) inb xin by (intro Cons.IH) simp_all
    also have "?d ! p x ! q x = d ! p x ! q x"
      using Cons.prems(2) ne by (auto simp: store_nth)
    finally show ?thesis by simp
  qed
qed

lemma for2_store_fill:
  assumes len: "length d = nat n" and row: "\<forall>i<nat n. length (d ! i) = nat m"
  shows "for2 n m (\<lambda>i j d. store d i j (v i j (d ! i ! j))) d
           = map (\<lambda>i. map (\<lambda>j. v i j (d ! i ! j)) [0..<nat m]) [0..<nat n]"
proof -
  let ?xs = "List.product [0..<nat n] [0..<nat m]"
  let ?F = "foldl (\<lambda>d x. store d (fst x) (snd x) (v (fst x) (snd x) (d ! fst x ! snd x))) d ?xs"
  have eq: "for2 n m (\<lambda>i j d. store d i j (v i j (d ! i ! j))) d = ?F"
    by (simp add: for2_product case_prod_unfold)
  have dist: "distinct (map (\<lambda>x. (fst x, snd x)) ?xs)"
    by (simp add: distinct_product)
  have inb: "\<forall>x\<in>set ?xs. fst x < length d \<and> snd x < length (d ! fst x)"
    using len row by auto
  have "?F = map (\<lambda>i. map (\<lambda>j. v i j (d ! i ! j)) [0..<nat m]) [0..<nat n]"
  proof (rule nth_equalityI)
    show "length ?F = length (map (\<lambda>i. map (\<lambda>j. v i j (d ! i ! j)) [0..<nat m]) [0..<nat n])"
      using len by simp
  next
    fix i assume "i < length ?F"
    then have i: "i < nat n" using len by simp
    show "?F ! i = map (\<lambda>i. map (\<lambda>j. v i j (d ! i ! j)) [0..<nat m]) [0..<nat n] ! i"
    proof (rule nth_equalityI)
      show "length (?F ! i)
          = length (map (\<lambda>i. map (\<lambda>j. v i j (d ! i ! j)) [0..<nat m]) [0..<nat n] ! i)"
        using i row by simp
    next
      fix j assume "j < length (?F ! i)"
      then have j: "j < nat m" using i row by simp
      have "(i, j) \<in> set ?xs" using i j by simp
      from foldl_store_hit [where p = fst and q = snd and v = "\<lambda>x. v (fst x) (snd x)", OF dist inb this]
      show "?F ! i ! j = map (\<lambda>i. map (\<lambda>j. v i j (d ! i ! j)) [0..<nat m]) [0..<nat n] ! i ! j"
        using i j by simp
    qed
  qed
  with eq show ?thesis by simp
qed

lemma for2_store_transposed:
  assumes len: "length d = nat m" and row: "\<forall>j<nat m. length (d ! j) = nat n"
  shows "for2 n m (\<lambda>i j d. store d j i (f i j)) d
           = map (\<lambda>j. map (\<lambda>i. f i j) [0..<nat n]) [0..<nat m]"
proof -
  let ?xs = "List.product [0..<nat n] [0..<nat m]"
  let ?F = "foldl (\<lambda>d x. store d (snd x) (fst x) (f (fst x) (snd x))) d ?xs"
  have eq: "for2 n m (\<lambda>i j d. store d j i (f i j)) d = ?F"
    by (simp add: for2_product case_prod_unfold)
  have "inj_on (\<lambda>x. (snd x, fst x)) (set ?xs)"
    by (rule inj_onI) (simp add: prod_eq_iff)
  then have dist: "distinct (map (\<lambda>x. (snd x, fst x)) ?xs)"
    by (simp add: distinct_map distinct_product)
  have inb: "\<forall>x\<in>set ?xs. snd x < length d \<and> fst x < length (d ! snd x)"
    using len row by auto
  have "?F = map (\<lambda>j. map (\<lambda>i. f i j) [0..<nat n]) [0..<nat m]"
  proof (rule nth_equalityI)
    show "length ?F = length (map (\<lambda>j. map (\<lambda>i. f i j) [0..<nat n]) [0..<nat m])"
      using len by simp
  next
    fix j assume "j < length ?F"
    then have j: "j < nat m" using len by simp
    show "?F ! j = map (\<lambda>j. map (\<lambda>i. f i j) [0..<nat n]) [0..<nat m] ! j"
    proof (rule nth_equalityI)
      show "length (?F ! j) = length (map (\<lambda>j. map (\<lambda>i. f i j) [0..<nat n]) [0..<nat m] ! j)"
        using j row by simp
    next
      fix i assume "i < length (?F ! j)"
      then have i: "i < nat n" using j row by simp
      have "(i, j) \<in> set ?xs" using i j by simp
      from foldl_store_hit [where p = snd and q = fst and v = "\<lambda>x _. f (fst x) (snd x)", OF dist inb this]
      show "?F ! j ! i = map (\<lambda>j. map (\<lambda>i. f i j) [0..<nat n]) [0..<nat m] ! j ! i"
        using i j by simp
    qed
  qed
  with eq show ?thesis by simp
qed

section \<open>Creating matrices\<close>

lemma create_rows_Some:
  "calloc rt c sizeof_double = Some r \<Longrightarrow> create_rows rt c n d = Some (d @ replicate n r)"
  by (induction n arbitrary: d) (simp_all add: replicate_app_Cons_same)

lemma create_rows_None:
  "calloc rt c sizeof_double = None \<Longrightarrow> create_rows rt c n d = (if n = 0 then Some d else None)"
  by (cases n) simp_all

lemma matrix_create_None_iff:
  "matrix_create rt r c = None \<longleftrightarrow>
     \<not> malloc_ok rt sizeof_Matrix \<or> \<not> malloc_array rt r sizeof_ptr \<or>
     (0 < r \<and> calloc rt c sizeof_double = (None :: ('a::zero) list option))"
  by (cases "calloc rt c sizeof_double :: 'a list option")
     (auto simp: matrix_create_def create_rows_Some create_rows_None split: option.splits)

lemma matrix_create_Some:
  "malloc_ok rt sizeof_Matrix \<Longrightarrow> malloc_array rt r sizeof_ptr \<Longrightarrow>
   calloc rt c sizeof_double = Some row \<Longrightarrow>
   matrix_create rt r c = Some \<lparr>data = replicate (nat r) row, rows = r, cols = c\<rparr>"
  by (simp add: matrix_create_def create_rows_Some)

lemma size_t_of_int_nonneg: "0 \<le> n \<Longrightarrow> n \<le> INT_MAX \<Longrightarrow> size_t_of_int n = nat n"
  by (simp add: size_t_of_int_def SIZE_MOD_def INT_MAX_def)

lemma size_t_of_int_neg: "- INT_MAX - 1 \<le> n \<Longrightarrow> n < 0 \<Longrightarrow> size_t_of_int n = nat (2 ^ 64 + n)"
proof -
  assume a: "- INT_MAX - 1 \<le> n" "n < 0"
  have "n mod 2 ^ 64 = (n + 2 ^ 64) mod 2 ^ 64" by simp
  also have "\<dots> = n + 2 ^ 64"
    using a by (intro mod_pos_pos_trivial) (simp_all add: INT_MAX_def)
  finally show ?thesis by (simp add: size_t_of_int_def SIZE_MOD_def add.commute)
qed

lemma calloc_negative:
  assumes "- INT_MAX - 1 \<le> c" "c < 0"
  shows "calloc rt c sizeof_double = None"
proof -
  have "size_t_of_int c = nat (2 ^ 64 + c)"
    using assms by (rule size_t_of_int_neg)
  moreover have "\<not> nat (2 ^ 64 + c) * 8 < (2 ^ 64 :: nat)"
    using assms by (simp add: INT_MAX_def)
  ultimately show ?thesis
    by (simp add: calloc_def sizeof_double_def SIZE_MOD_def)
qed

lemma calloc_nonneg:
  "0 \<le> c \<Longrightarrow> c \<le> INT_MAX \<Longrightarrow> malloc_ok rt (nat c * sizeof_double) \<Longrightarrow>
   calloc rt c sizeof_double = Some (replicate (nat c) 0)"
  by (simp add: calloc_def size_t_of_int_nonneg sizeof_double_def SIZE_MOD_def INT_MAX_def)

lemma malloc_array_nonneg:
  "0 \<le> n \<Longrightarrow> n \<le> INT_MAX \<Longrightarrow> malloc_array rt n sizeof_ptr = malloc_ok rt (nat n * sizeof_ptr)"
  by (simp add: malloc_array_def size_t_of_int_nonneg sizeof_ptr_def SIZE_MOD_def INT_MAX_def)

text \<open>
  Claim C6, as the code has it. \<^verbatim>\<open>matrix_create\<close> never looks at the sign of its arguments:
  it returns \<^verbatim>\<open>NULL\<close> exactly when one of its allocation requests is refused. With positive
  \<^verbatim>\<open>int\<close> dimensions and its three kinds of request granted it returns the zero-filled
  matrix of that shape. With a positive row count and a negative column count it fails,
  because \<^verbatim>\<open>calloc\<close> is asked for more than \<^verbatim>\<open>size_t\<close> can hold. With no rows it returns an
  empty matrix as soon as the allocator grants the struct and a request of zero bytes.
\<close>

theorem matrix_create_spec:
  fixes rt :: "('a::zero) runtime"
  shows "(0 < r \<and> r \<le> INT_MAX \<and> 0 < c \<and> c \<le> INT_MAX \<and> malloc_ok rt sizeof_Matrix \<and>
          malloc_ok rt (nat r * sizeof_ptr) \<and> malloc_ok rt (nat c * sizeof_double) \<longrightarrow>
            matrix_create rt r c
              = Some \<lparr>data = replicate (nat r) (replicate (nat c) 0), rows = r, cols = c\<rparr>)
       \<and> (matrix_create rt r c = None \<longleftrightarrow>
            \<not> malloc_ok rt sizeof_Matrix \<or> \<not> malloc_array rt r sizeof_ptr \<or>
            (0 < r \<and> calloc rt c sizeof_double = None))
       \<and> (0 < r \<and> - INT_MAX - 1 \<le> c \<and> c < 0 \<longrightarrow> matrix_create rt r c = None)
       \<and> (r = 0 \<and> malloc_ok rt sizeof_Matrix \<and> malloc_ok rt 0 \<longrightarrow>
            matrix_create rt r c = Some \<lparr>data = [], rows = 0, cols = c\<rparr>)"
proof (intro conjI impI)
  assume a: "0 < r \<and> r \<le> INT_MAX \<and> 0 < c \<and> c \<le> INT_MAX \<and> malloc_ok rt sizeof_Matrix \<and>
          malloc_ok rt (nat r * sizeof_ptr) \<and> malloc_ok rt (nat c * sizeof_double)"
  then have "calloc rt c sizeof_double = Some (replicate (nat c) 0)"
    by (simp add: calloc_nonneg)
  moreover have "malloc_array rt r sizeof_ptr"
    using a by (simp add: malloc_array_nonneg)
  ultimately show "matrix_create rt r c
      = Some \<lparr>data = replicate (nat r) (replicate (nat c) 0), rows = r, cols = c\<rparr>"
    using a by (simp add: matrix_create_Some)
next
  show "matrix_create rt r c = None \<longleftrightarrow>
            \<not> malloc_ok rt sizeof_Matrix \<or> \<not> malloc_array rt r sizeof_ptr \<or>
            (0 < r \<and> calloc rt c sizeof_double = None)"
    by (rule matrix_create_None_iff)
next
  assume "0 < r \<and> - INT_MAX - 1 \<le> c \<and> c < 0"
  then show "matrix_create rt r c = None"
    by (simp add: matrix_create_None_iff calloc_negative)
next
  assume "r = 0 \<and> malloc_ok rt sizeof_Matrix \<and> malloc_ok rt 0"
  then show "matrix_create rt r c = Some \<lparr>data = [], rows = 0, cols = c\<rparr>"
    by (simp add: matrix_create_def malloc_array_def size_t_of_int_def)
qed

theorem matrix_create_spec_witness:
  "matrix_create real_runtime 2 3
     = Some \<lparr>data = [[0, 0, 0], [0, 0, 0]], rows = 2, cols = 3\<rparr>
   \<and> matrix_create real_runtime 2 (- 3) = None
   \<and> matrix_create real_runtime 0 (- 3) = Some \<lparr>data = [], rows = 0, cols = - 3\<rparr>"
proof -
  have mem: "malloc_ok real_runtime sizeof_Matrix" "malloc_ok real_runtime 0"
    "malloc_ok real_runtime (nat 2 * sizeof_ptr)" "malloc_ok real_runtime (nat 3 * sizeof_double)"
    by (simp_all add: real_runtime_def user_space_alloc_def sizeof_Matrix_def sizeof_ptr_def
        sizeof_double_def)
  have "matrix_create real_runtime 2 3
          = Some \<lparr>data = replicate (nat 2) (replicate (nat 3) 0), rows = 2, cols = 3\<rparr>"
    using matrix_create_spec [of 2 3 real_runtime] mem by (simp add: INT_MAX_def)
  moreover have "replicate (nat 2) (replicate (nat 3) (0::real)) = [[0, 0, 0], [0, 0, 0]]"
    by (simp add: numeral_2_eq_2 numeral_3_eq_3)
  moreover have "matrix_create real_runtime 2 (- 3) = None"
    using matrix_create_spec [of 2 "- 3" real_runtime] by (simp add: INT_MAX_def)
  moreover have "matrix_create real_runtime 0 (- 3) = Some \<lparr>data = [], rows = 0, cols = - 3\<rparr>"
    using matrix_create_spec [of 0 "- 3" real_runtime] mem by simp
  ultimately show ?thesis by simp
qed

text \<open>
  Claim C6 as stated (failure whenever a dimension is not positive) does not hold on an
  allocator that answers a request of zero bytes with a pointer, as the C library of the
  CI platform does: zero rows, or rows of zero columns, are built.
\<close>

theorem matrix_create_nonpositive_counterexample:
  "matrix_create real_runtime 0 5 = Some \<lparr>data = [], rows = 0, cols = 5\<rparr>
   \<and> matrix_create real_runtime 3 0 = Some \<lparr>data = [[], [], []], rows = 3, cols = 0\<rparr>"
  by (simp add: matrix_create_def real_runtime_def user_space_alloc_def malloc_array_def
      size_t_of_int_def SIZE_MOD_def sizeof_Matrix_def sizeof_ptr_def sizeof_double_def
      calloc_def numeral_3_eq_3)

section \<open>Element access\<close>

text \<open>
  Claim C8. Outside \<open>[0, rows) \<times> [0, cols)\<close> \<^verbatim>\<open>matrix_get\<close> returns \<open>0\<close> and \<^verbatim>\<open>matrix_set\<close>
  leaves the matrix as it is. Inside, \<^verbatim>\<open>matrix_get\<close> returns the stored element, and after
  \<^verbatim>\<open>matrix_set\<close> the matrix has the same shape, holds the given value at that index and
  its old value at every other index.
\<close>

theorem matrix_get_set_bounds:
  fixes m :: "('a::zero) Matrix"
  shows "(\<not> (0 \<le> row \<and> row < rows m \<and> 0 \<le> col \<and> col < cols m) \<longrightarrow>
            matrix_get (Some m) row col = 0 \<and> matrix_set (Some m) row col v = Some m)
       \<and> (wf_matrix m \<and> 0 \<le> row \<and> row < rows m \<and> 0 \<le> col \<and> col < cols m \<longrightarrow>
            matrix_get (Some m) row col = data m ! nat row ! nat col
          \<and> (\<exists>m'. matrix_set (Some m) row col v = Some m' \<and> rows m' = rows m \<and> cols m' = cols m
               \<and> wf_matrix m'
               \<and> (\<forall>r c. matrix_get (Some m') r c
                          = (if r = row \<and> c = col then v else matrix_get (Some m) r c))))"
proof (intro conjI impI)
  assume "\<not> (0 \<le> row \<and> row < rows m \<and> 0 \<le> col \<and> col < cols m)"
  then show "matrix_get (Some m) row col = 0" by (auto simp: matrix_get_def)
next
  assume "\<not> (0 \<le> row \<and> row < rows m \<and> 0 \<le> col \<and> col < cols m)"
  then show "matrix_set (Some m) row col v = Some m" by (auto simp: matrix_set_def)
next
  assume "wf_matrix m \<and> 0 \<le> row \<and> row < rows m \<and> 0 \<le> col \<and> col < cols m"
  then show "matrix_get (Some m) row col = data m ! nat row ! nat col"
    by (simp add: matrix_get_def)
next
  assume a: "wf_matrix m \<and> 0 \<le> row \<and> row < rows m \<and> 0 \<le> col \<and> col < cols m"
  let ?m = "m\<lparr>data := store (data m) (nat row) (nat col) v\<rparr>"
  have len: "length (data m) = nat (rows m)" and
    rowlen: "\<And>i. i < nat (rows m) \<Longrightarrow> length (data m ! i) = nat (cols m)"
    using a by (simp_all add: wf_matrix_def list_all_length)
  have inb: "nat row < length (data m)" "nat col < length (data m ! nat row)"
    using a len rowlen by simp_all
  have wf: "wf_matrix ?m"
    using a by (simp add: wf_matrix_def list_all_length)
  have get: "matrix_get (Some ?m) r c
               = (if r = row \<and> c = col then v else matrix_get (Some m) r c)" for r c
    using a inb by (auto simp: matrix_get_def store_nth)
  show "\<exists>m'. matrix_set (Some m) row col v = Some m' \<and> rows m' = rows m \<and> cols m' = cols m
               \<and> wf_matrix m'
               \<and> (\<forall>r c. matrix_get (Some m') r c
                          = (if r = row \<and> c = col then v else matrix_get (Some m) r c))"
    using a wf get by (intro exI [of _ ?m]) (simp add: matrix_set_def)
qed

theorem matrix_get_set_bounds_witness:
  "wf_matrix \<lparr>data = [[1, 2], [3, 4 :: int]], rows = 2, cols = 2\<rparr>
   \<and> matrix_get (Some \<lparr>data = [[1, 2], [3, 4 :: int]], rows = 2, cols = 2\<rparr>) 2 0 = 0
   \<and> matrix_set (Some \<lparr>data = [[1, 2], [3, 4 :: int]], rows = 2, cols = 2\<rparr>) 0 (- 1) 9
       = Some \<lparr>data = [[1, 2], [3, 4]], rows = 2, cols = 2\<rparr>
   \<and> matrix_get (Some \<lparr>data = [[1, 2], [3, 4 :: int]], rows = 2, cols = 2\<rparr>) 1 0 = 3
   \<and> matrix_set (Some \<lparr>data = [[1, 2], [3, 4 :: int]], rows = 2, cols = 2\<rparr>) 1 0 9
       = Some \<lparr>data = [[1, 2], [9, 4]], rows = 2, cols = 2\<rparr>"
  using matrix_get_set_bounds [of 2 "\<lparr>data = [[1, 2], [3, 4 :: int]], rows = 2, cols = 2\<rparr>" 0 9]
    matrix_get_set_bounds [of 0 "\<lparr>data = [[1, 2], [3, 4 :: int]], rows = 2, cols = 2\<rparr>" "- 1" 9]
    matrix_get_set_bounds [of 1 "\<lparr>data = [[1, 2], [3, 4 :: int]], rows = 2, cols = 2\<rparr>" 0 9]
  by (simp add: wf_matrix_def INT_MAX_def matrix_get_def matrix_set_def store_def)

section \<open>The allocating operations leave their operands alone\<close>

lemma foldl_poke:
  fixes h :: "'a heap"
  assumes "objs h r = Some m"
    and "\<And>h' x. (\<forall>p. p \<noteq> r \<longrightarrow> objs h' p = objs h p) \<Longrightarrow> val h' x = val0 x"
  shows "foldl (\<lambda>h x. poke h r (p x) (q x) (val h x)) h xs
         = h\<lparr>objs := (objs h)(r \<mapsto> m\<lparr>data := foldl (\<lambda>d x. store d (p x) (q x) (val0 x)) (data m) xs\<rparr>)\<rparr>"
  using assms
proof (induction xs arbitrary: h m)
  case Nil
  then show ?case by (simp add: fun_upd_idem)
next
  case (Cons x xs)
  let ?m1 = "m\<lparr>data := store (data m) (p x) (q x) (val0 x)\<rparr>"
  let ?h1 = "h\<lparr>objs := (objs h)(r \<mapsto> ?m1)\<rparr>"
  have v: "val h x = val0 x" using Cons.prems(2) by simp
  have step: "poke h r (p x) (q x) (val h x) = ?h1"
    using Cons.prems(1) v by (simp add: poke_def)
  have rest: "foldl (\<lambda>h x. poke h r (p x) (q x) (val h x)) ?h1 xs
      = ?h1\<lparr>objs := (objs ?h1)(r \<mapsto> ?m1\<lparr>data := foldl (\<lambda>d x. store d (p x) (q x) (val0 x)) (data ?m1) xs\<rparr>)\<rparr>"
  proof (rule Cons.IH)
    show "objs ?h1 r = Some ?m1" by simp
  next
    fix h' :: "'a heap" and y
    assume "\<forall>p. p \<noteq> r \<longrightarrow> objs h' p = objs ?h1 p"
    then have "\<forall>p. p \<noteq> r \<longrightarrow> objs h' p = objs h p" by simp
    then show "val h' y = val0 y" by (rule Cons.prems(2))
  qed
  have "foldl (\<lambda>h x. poke h r (p x) (q x) (val h x)) h (x # xs)
      = foldl (\<lambda>h x. poke h r (p x) (q x) (val h x)) ?h1 xs"
    by (simp only: foldl_Cons step)
  also note rest
  also have "?h1\<lparr>objs := (objs ?h1)(r \<mapsto> ?m1\<lparr>data := foldl (\<lambda>d x. store d (p x) (q x) (val0 x)) (data ?m1) xs\<rparr>)\<rparr>
      = h\<lparr>objs := (objs h)(r \<mapsto> m\<lparr>data := foldl (\<lambda>d x. store d (p x) (q x) (val0 x)) (data m) (x # xs)\<rparr>)\<rparr>"
    by simp
  finally show ?case .
qed

lemma for2_poke:
  fixes h :: "'a heap"
  assumes "objs h r = Some m"
    and "\<And>h' i j. (\<forall>p. p \<noteq> r \<longrightarrow> objs h' p = objs h p) \<Longrightarrow> val h' i j = val0 i j"
  shows "for2 n k (\<lambda>i j h. poke h r (p i j) (q i j) (val h i j)) h
         = h\<lparr>objs := (objs h)(r \<mapsto> m\<lparr>data := for2 n k (\<lambda>i j d. store d (p i j) (q i j) (val0 i j)) (data m)\<rparr>)\<rparr>"
proof -
  have "foldl (\<lambda>h x. poke h r (p (fst x) (snd x)) (q (fst x) (snd x)) (val h (fst x) (snd x))) h xs
         = h\<lparr>objs := (objs h)(r \<mapsto> m\<lparr>data := foldl (\<lambda>d x. store d (p (fst x) (snd x)) (q (fst x) (snd x)) (val0 (fst x) (snd x))) (data m) xs\<rparr>)\<rparr>" for xs
    using assms by (intro foldl_poke) simp_all
  then show ?thesis by (simp add: for2_product case_prod_unfold)
qed

lemma matrix_create_st_cases:
  assumes "wf_heap h"
  obtains (fail) "matrix_create rt r c = None" "matrix_create_st rt h r c = (None, h)"
  | (ok) m where "matrix_create rt r c = Some m"
      "matrix_create_st rt h r c = (Some (brk h), h\<lparr>objs := (objs h)(brk h \<mapsto> m), brk := Suc (brk h)\<rparr>)"
      "objs h (brk h) = None"
  using assms by (cases "matrix_create rt r c") (auto simp: matrix_create_st_def wf_heap_def)

lemma matrix_multiply_st_eq:
  fixes h :: "('a::{zero,plus,times}) heap"
  assumes "wf_heap h" and a: "objs h a = Some A" and b: "objs h b = Some B"
  shows "matrix_multiply_st rt h (Some a) (Some b) = placed h (matrix_multiply rt (Some A) (Some B))"
proof (cases "cols A = rows B")
  case False
  then show ?thesis
    using a b by (simp add: matrix_multiply_st_def matrix_multiply_def placed_def mcols_def mrows_def)
next
  case True
  from \<open>wf_heap h\<close> show ?thesis
  proof (cases rule: matrix_create_st_cases [where rt = rt and r = "rows A" and c = "cols B"])
    case fail
    then show ?thesis
      using a b True
      by (simp add: matrix_multiply_st_def matrix_multiply_def placed_def mcols_def mrows_def)
  next
    case (ok m)
    let ?r = "brk h"
    let ?h1 = "h\<lparr>objs := (objs h)(?r \<mapsto> m), brk := Suc ?r\<rparr>"
    have ne: "a \<noteq> ?r" "b \<noteq> ?r" using a b ok(3) by auto
    have "for2 (rows A) (cols B)
            (\<lambda>i j h. poke h ?r i j
               (foldl (\<lambda>sum k. sum + peek h a i k * peek h b k j) 0 [0..<nat (mcols h a)])) ?h1
        = ?h1\<lparr>objs := (objs ?h1)(?r \<mapsto> m\<lparr>data := for2 (rows A) (cols B)
            (\<lambda>i j d. store d i j
               (foldl (\<lambda>sum k. sum + data A ! i ! k * data B ! k ! j) 0 [0..<nat (cols A)]))
            (data m)\<rparr>)\<rparr>"
      using a b ne by (intro for2_poke) (simp_all add: peek_def mcols_def)
    then show ?thesis
      using a b True ok ne
      by (simp add: matrix_multiply_st_def matrix_multiply_def placed_def mcols_def mrows_def)
  qed
qed

lemma matrix_add_st_eq:
  fixes h :: "('a::{zero,plus}) heap"
  assumes "wf_heap h" and a: "objs h a = Some A" and b: "objs h b = Some B"
  shows "matrix_add_st rt h (Some a) (Some b) = placed h (matrix_add rt (Some A) (Some B))"
proof (cases "rows A = rows B \<and> cols A = cols B")
  case False
  then show ?thesis
    using a b by (auto simp: matrix_add_st_def matrix_add_def placed_def mcols_def mrows_def)
next
  case True
  from \<open>wf_heap h\<close> show ?thesis
  proof (cases rule: matrix_create_st_cases [where rt = rt and r = "rows A" and c = "cols A"])
    case fail
    then show ?thesis
      using a b True
      by (simp add: matrix_add_st_def matrix_add_def placed_def mcols_def mrows_def)
  next
    case (ok m)
    let ?r = "brk h"
    let ?h1 = "h\<lparr>objs := (objs h)(?r \<mapsto> m), brk := Suc ?r\<rparr>"
    have ne: "a \<noteq> ?r" "b \<noteq> ?r" using a b ok(3) by auto
    have "for2 (rows A) (cols A) (\<lambda>i j h. poke h ?r i j (peek h a i j + peek h b i j)) ?h1
        = ?h1\<lparr>objs := (objs ?h1)(?r \<mapsto> m\<lparr>data := for2 (rows A) (cols A)
            (\<lambda>i j d. store d i j (data A ! i ! j + data B ! i ! j)) (data m)\<rparr>)\<rparr>"
      using a b ne by (intro for2_poke) (simp_all add: peek_def)
    then show ?thesis
      using a b True ok ne
      by (simp add: matrix_add_st_def matrix_add_def placed_def mcols_def mrows_def)
  qed
qed

lemma matrix_subtract_st_eq:
  fixes h :: "('a::{zero,minus}) heap"
  assumes "wf_heap h" and a: "objs h a = Some A" and b: "objs h b = Some B"
  shows "matrix_subtract_st rt h (Some a) (Some b) = placed h (matrix_subtract rt (Some A) (Some B))"
proof (cases "rows A = rows B \<and> cols A = cols B")
  case False
  then show ?thesis
    using a b
    by (auto simp: matrix_subtract_st_def matrix_subtract_def placed_def mcols_def mrows_def)
next
  case True
  from \<open>wf_heap h\<close> show ?thesis
  proof (cases rule: matrix_create_st_cases [where rt = rt and r = "rows A" and c = "cols A"])
    case fail
    then show ?thesis
      using a b True
      by (simp add: matrix_subtract_st_def matrix_subtract_def placed_def mcols_def mrows_def)
  next
    case (ok m)
    let ?r = "brk h"
    let ?h1 = "h\<lparr>objs := (objs h)(?r \<mapsto> m), brk := Suc ?r\<rparr>"
    have ne: "a \<noteq> ?r" "b \<noteq> ?r" using a b ok(3) by auto
    have "for2 (rows A) (cols A) (\<lambda>i j h. poke h ?r i j (peek h a i j - peek h b i j)) ?h1
        = ?h1\<lparr>objs := (objs ?h1)(?r \<mapsto> m\<lparr>data := for2 (rows A) (cols A)
            (\<lambda>i j d. store d i j (data A ! i ! j - data B ! i ! j)) (data m)\<rparr>)\<rparr>"
      using a b ne by (intro for2_poke) (simp_all add: peek_def)
    then show ?thesis
      using a b True ok ne
      by (simp add: matrix_subtract_st_def matrix_subtract_def placed_def mcols_def mrows_def)
  qed
qed

lemma matrix_transpose_st_eq:
  fixes h :: "('a::zero) heap"
  assumes "wf_heap h" and a: "objs h a = Some A"
  shows "matrix_transpose_st rt h (Some a) = placed h (matrix_transpose rt (Some A))"
  using \<open>wf_heap h\<close>
proof (cases rule: matrix_create_st_cases [where rt = rt and r = "cols A" and c = "rows A"])
  case fail
  then show ?thesis
    using a by (simp add: matrix_transpose_st_def matrix_transpose_def placed_def mcols_def mrows_def)
next
  case (ok m)
  let ?r = "brk h"
  let ?h1 = "h\<lparr>objs := (objs h)(?r \<mapsto> m), brk := Suc ?r\<rparr>"
  have ne: "a \<noteq> ?r" using a ok(3) by auto
  have "for2 (rows A) (cols A) (\<lambda>i j h. poke h ?r j i (peek h a i j)) ?h1
      = ?h1\<lparr>objs := (objs ?h1)(?r \<mapsto> m\<lparr>data := for2 (rows A) (cols A)
          (\<lambda>i j d. store d j i (data A ! i ! j)) (data m)\<rparr>)\<rparr>"
    using a ne by (intro for2_poke) (simp_all add: peek_def)
  then show ?thesis
    using a ok ne
    by (simp add: matrix_transpose_st_def matrix_transpose_def placed_def mcols_def mrows_def)
qed

lemma placed_frame:
  assumes "wf_heap h"
  shows "\<exists>res h'. placed h v = Some (res, h') \<and> preserves h h' \<and> fresh_result h h' res \<and>
           Option.bind res (objs h') = v \<and> wf_heap h'"
proof (cases v)
  case None
  then show ?thesis
    using assms by (simp add: placed_def preserves_def fresh_result_def)
next
  case (Some R)
  have "objs h (brk h) = None" using assms by (simp add: wf_heap_def)
  then show ?thesis
    using assms Some by (auto simp: placed_def preserves_def fresh_result_def wf_heap_def)
qed

section \<open>The matrix operations on well-formed operands\<close>

lemma wf_matrixD:
  assumes "wf_matrix m"
  shows "length (data m) = nat (rows m)"
    and "\<And>i. i < nat (rows m) \<Longrightarrow> length (data m ! i) = nat (cols m)"
    and "0 \<le> rows m" "rows m \<le> INT_MAX" "0 \<le> cols m" "cols m \<le> INT_MAX"
  using assms by (simp_all add: wf_matrix_def list_all_length)

lemma wf_matrixI:
  assumes "length d = nat r" and "\<And>i. i < nat r \<Longrightarrow> length (d ! i) = nat c"
    and "0 \<le> r" "r \<le> INT_MAX" "0 \<le> c" "c \<le> INT_MAX"
  shows "wf_matrix \<lparr>data = d, rows = r, cols = c\<rparr>"
  using assms by (simp add: wf_matrix_def list_all_length)

lemma enough_memoryD: "enough_memory rt \<Longrightarrow> n < 2 ^ 35 \<Longrightarrow> malloc_ok rt n"
  by (simp add: enough_memory_def)

lemma matrix_create_ok:
  fixes rt :: "('a::zero) runtime"
  assumes "enough_memory rt" "0 \<le> r" "r \<le> INT_MAX" "0 \<le> c" "c \<le> INT_MAX"
  shows "matrix_create rt r c
           = Some \<lparr>data = replicate (nat r) (replicate (nat c) 0), rows = r, cols = c\<rparr>"
proof -
  have "malloc_ok rt sizeof_Matrix"
    using assms(1) by (intro enough_memoryD) (simp_all add: sizeof_Matrix_def)
  moreover have "malloc_array rt r sizeof_ptr"
    using assms by (simp add: malloc_array_nonneg)
      (intro enough_memoryD, simp_all add: sizeof_ptr_def INT_MAX_def)
  moreover have "calloc rt c sizeof_double = Some (replicate (nat c) 0)"
    using assms by (intro calloc_nonneg)
      (simp_all, intro enough_memoryD, simp_all add: sizeof_double_def INT_MAX_def)
  ultimately show ?thesis by (rule matrix_create_Some)
qed

text \<open>The matrix whose entry \<open>(i, j)\<close> is \<open>f i j\<close>.\<close>

lemma wf_matrix_tabulate:
  "0 \<le> r \<Longrightarrow> r \<le> INT_MAX \<Longrightarrow> 0 \<le> c \<Longrightarrow> c \<le> INT_MAX \<Longrightarrow>
   wf_matrix \<lparr>data = map (\<lambda>i. map (f i) [0..<nat c]) [0..<nat r], rows = r, cols = c\<rparr>"
  by (rule wf_matrixI) simp_all

lemma fill_created:
  fixes rt :: "('a::zero) runtime"
  assumes "enough_memory rt" "0 \<le> r" "r \<le> INT_MAX" "0 \<le> c" "c \<le> INT_MAX"
  shows "(case matrix_create rt r c of
            None \<Rightarrow> None
          | Some result \<Rightarrow>
              Some (result\<lparr>data := for2 r c (\<lambda>i j d. store d i j (f i j)) (data result)\<rparr>))
         = Some \<lparr>data = map (\<lambda>i. map (f i) [0..<nat c]) [0..<nat r], rows = r, cols = c\<rparr>"
  using assms
  by (simp add: matrix_create_ok for2_store_fill [where v = "\<lambda>i j _. f i j"])

lemma fill_created_transposed:
  fixes rt :: "('a::zero) runtime"
  assumes "enough_memory rt" "0 \<le> r" "r \<le> INT_MAX" "0 \<le> c" "c \<le> INT_MAX"
  shows "(case matrix_create rt c r of
            None \<Rightarrow> None
          | Some result \<Rightarrow>
              Some (result\<lparr>data := for2 r c (\<lambda>i j d. store d j i (f i j)) (data result)\<rparr>))
         = Some \<lparr>data = map (\<lambda>j. map (\<lambda>i. f i j) [0..<nat r]) [0..<nat c], rows = c, cols = r\<rparr>"
  using assms
  by (simp add: matrix_create_ok for2_store_transposed)

lemma matrix_multiply_ok:
  fixes rt :: "('a::{zero,plus,times}) runtime"
  assumes "enough_memory rt" "wf_matrix a" "wf_matrix b" "cols a = rows b"
  shows "matrix_multiply rt (Some a) (Some b)
           = Some \<lparr>data = map (\<lambda>i. map (\<lambda>j. foldl (\<lambda>sum k. sum + data a ! i ! k * data b ! k ! j) 0
                                              [0..<nat (cols a)])
                                    [0..<nat (cols b)]) [0..<nat (rows a)],
                   rows = rows a, cols = cols b\<rparr>"
proof -
  note fill_created [OF assms(1) wf_matrixD(3,4) [OF assms(2)] wf_matrixD(5,6) [OF assms(3)]]
  then show ?thesis using assms(4) by (simp add: matrix_multiply_def)
qed

lemma matrix_add_ok:
  fixes rt :: "('a::{zero,plus}) runtime"
  assumes "enough_memory rt" "wf_matrix a" "rows a = rows b" "cols a = cols b"
  shows "matrix_add rt (Some a) (Some b)
           = Some \<lparr>data = map (\<lambda>i. map (\<lambda>j. data a ! i ! j + data b ! i ! j) [0..<nat (cols a)])
                            [0..<nat (rows a)],
                   rows = rows a, cols = cols a\<rparr>"
proof -
  note fill_created [OF assms(1) wf_matrixD(3-6) [OF assms(2)]]
  then show ?thesis using assms(3,4) [symmetric] by (simp add: matrix_add_def)
qed

lemma matrix_subtract_ok:
  fixes rt :: "('a::{zero,minus}) runtime"
  assumes "enough_memory rt" "wf_matrix a" "rows a = rows b" "cols a = cols b"
  shows "matrix_subtract rt (Some a) (Some b)
           = Some \<lparr>data = map (\<lambda>i. map (\<lambda>j. data a ! i ! j - data b ! i ! j) [0..<nat (cols a)])
                            [0..<nat (rows a)],
                   rows = rows a, cols = cols a\<rparr>"
proof -
  note fill_created [OF assms(1) wf_matrixD(3-6) [OF assms(2)]]
  then show ?thesis using assms(3,4) [symmetric] by (simp add: matrix_subtract_def)
qed

lemma matrix_transpose_ok:
  fixes rt :: "('a::zero) runtime"
  assumes "enough_memory rt" "wf_matrix m"
  shows "matrix_transpose rt (Some m)
           = Some \<lparr>data = map (\<lambda>j. map (\<lambda>i. data m ! i ! j) [0..<nat (rows m)]) [0..<nat (cols m)],
                   rows = cols m, cols = rows m\<rparr>"
proof -
  note fill_created_transposed [OF assms(1) wf_matrixD(3-6) [OF assms(2)]]
  then show ?thesis by (simp add: matrix_transpose_def)
qed

section \<open>The frame of the allocating operations\<close>

text \<open>
  Claim C10. Called on allocated operands (which may be one and the same matrix),
  \<^verbatim>\<open>matrix_multiply\<close>, \<^verbatim>\<open>matrix_add\<close>, \<^verbatim>\<open>matrix_subtract\<close> and \<^verbatim>\<open>matrix_transpose\<close> return
  without a fault; every matrix allocated before the call, the operands among them, is
  unchanged after it; a result that is not \<^verbatim>\<open>NULL\<close> sits at an address that was free
  before the call; the object behind the result is the matrix the operation on values
  computes; and with well-formed operands of compatible shapes and enough memory the
  result is not \<^verbatim>\<open>NULL\<close>.
\<close>

theorem allocating_operations_frame:
  fixes h :: "('a::{zero,plus,minus,times}) heap"
  assumes "wf_heap h" and "objs h a = Some A" and "objs h b = Some B"
  shows "(\<exists>res h'. matrix_multiply_st rt h (Some a) (Some b) = Some (res, h') \<and>
            preserves h h' \<and> fresh_result h h' res \<and>
            Option.bind res (objs h') = matrix_multiply rt (Some A) (Some B) \<and>
            (enough_memory rt \<and> wf_matrix A \<and> wf_matrix B \<and> cols A = rows B \<longrightarrow> res \<noteq> None))
       \<and> (\<exists>res h'. matrix_add_st rt h (Some a) (Some b) = Some (res, h') \<and>
            preserves h h' \<and> fresh_result h h' res \<and>
            Option.bind res (objs h') = matrix_add rt (Some A) (Some B) \<and>
            (enough_memory rt \<and> wf_matrix A \<and> rows A = rows B \<and> cols A = cols B \<longrightarrow> res \<noteq> None))
       \<and> (\<exists>res h'. matrix_subtract_st rt h (Some a) (Some b) = Some (res, h') \<and>
            preserves h h' \<and> fresh_result h h' res \<and>
            Option.bind res (objs h') = matrix_subtract rt (Some A) (Some B) \<and>
            (enough_memory rt \<and> wf_matrix A \<and> rows A = rows B \<and> cols A = cols B \<longrightarrow> res \<noteq> None))
       \<and> (\<exists>res h'. matrix_transpose_st rt h (Some a) = Some (res, h') \<and>
            preserves h h' \<and> fresh_result h h' res \<and>
            Option.bind res (objs h') = matrix_transpose rt (Some A) \<and>
            (enough_memory rt \<and> wf_matrix A \<longrightarrow> res \<noteq> None))"
proof -
  have nonnull: "res \<noteq> None" if "Option.bind res f = v" "v \<noteq> None"
    for res :: "nat option" and f :: "nat \<Rightarrow> 'a Matrix option" and v
    using that by (cases res) auto
  have mul: "enough_memory rt \<and> wf_matrix A \<and> wf_matrix B \<and> cols A = rows B \<longrightarrow>
      matrix_multiply rt (Some A) (Some B) \<noteq> None"
    by (auto simp: matrix_multiply_ok)
  have add: "enough_memory rt \<and> wf_matrix A \<and> rows A = rows B \<and> cols A = cols B \<longrightarrow>
      matrix_add rt (Some A) (Some B) \<noteq> None"
    by (auto simp: matrix_add_ok)
  have sub: "enough_memory rt \<and> wf_matrix A \<and> rows A = rows B \<and> cols A = cols B \<longrightarrow>
      matrix_subtract rt (Some A) (Some B) \<noteq> None"
    by (auto simp: matrix_subtract_ok)
  have tr: "enough_memory rt \<and> wf_matrix A \<longrightarrow> matrix_transpose rt (Some A) \<noteq> None"
    by (auto simp: matrix_transpose_ok)
  show ?thesis
  proof (intro conjI)
    from placed_frame [OF assms(1), of "matrix_multiply rt (Some A) (Some B)"]
    show "\<exists>res h'. matrix_multiply_st rt h (Some a) (Some b) = Some (res, h') \<and>
            preserves h h' \<and> fresh_result h h' res \<and>
            Option.bind res (objs h') = matrix_multiply rt (Some A) (Some B) \<and>
            (enough_memory rt \<and> wf_matrix A \<and> wf_matrix B \<and> cols A = rows B \<longrightarrow> res \<noteq> None)"
      unfolding matrix_multiply_st_eq [OF assms] using mul nonnull by blast
  next
    from placed_frame [OF assms(1), of "matrix_add rt (Some A) (Some B)"]
    show "\<exists>res h'. matrix_add_st rt h (Some a) (Some b) = Some (res, h') \<and>
            preserves h h' \<and> fresh_result h h' res \<and>
            Option.bind res (objs h') = matrix_add rt (Some A) (Some B) \<and>
            (enough_memory rt \<and> wf_matrix A \<and> rows A = rows B \<and> cols A = cols B \<longrightarrow> res \<noteq> None)"
      unfolding matrix_add_st_eq [OF assms] using add nonnull by blast
  next
    from placed_frame [OF assms(1), of "matrix_subtract rt (Some A) (Some B)"]
    show "\<exists>res h'. matrix_subtract_st rt h (Some a) (Some b) = Some (res, h') \<and>
            preserves h h' \<and> fresh_result h h' res \<and>
            Option.bind res (objs h') = matrix_subtract rt (Some A) (Some B) \<and>
            (enough_memory rt \<and> wf_matrix A \<and> rows A = rows B \<and> cols A = cols B \<longrightarrow> res \<noteq> None)"
      unfolding matrix_subtract_st_eq [OF assms] using sub nonnull by blast
  next
    from placed_frame [OF assms(1), of "matrix_transpose rt (Some A)"]
    show "\<exists>res h'. matrix_transpose_st rt h (Some a) = Some (res, h') \<and>
            preserves h h' \<and> fresh_result h h' res \<and>
            Option.bind res (objs h') = matrix_transpose rt (Some A) \<and>
            (enough_memory rt \<and> wf_matrix A \<longrightarrow> res \<noteq> None)"
      unfolding matrix_transpose_st_eq [OF assms(1,2)] using tr nonnull by blast
  qed
qed

theorem allocating_operations_frame_witness:
  "wf_heap example_heap \<and> objs example_heap 0 = Some example_matrix \<and>
   enough_memory real_runtime \<and> wf_matrix example_matrix
   \<and> (\<exists>res h'. matrix_multiply_st real_runtime example_heap (Some 0) (Some 0) = Some (res, h') \<and>
         objs h' 0 = Some example_matrix \<and> res \<noteq> None \<and> res \<noteq> Some 0)
   \<and> (\<exists>res h'. matrix_add_st real_runtime example_heap (Some 0) (Some 0) = Some (res, h') \<and>
         objs h' 0 = Some example_matrix \<and> res \<noteq> None \<and> res \<noteq> Some 0)
   \<and> (\<exists>res h'. matrix_subtract_st real_runtime example_heap (Some 0) (Some 0) = Some (res, h') \<and>
         objs h' 0 = Some example_matrix \<and> res \<noteq> None \<and> res \<noteq> Some 0)
   \<and> (\<exists>res h'. matrix_transpose_st real_runtime example_heap (Some 0) = Some (res, h') \<and>
         objs h' 0 = Some example_matrix \<and> res \<noteq> None \<and> res \<noteq> Some 0)"
proof -
  have h: "wf_heap example_heap" "objs example_heap 0 = Some example_matrix"
    by (simp_all add: wf_heap_def example_heap_def)
  have m: "enough_memory real_runtime" "wf_matrix example_matrix"
    "rows example_matrix = cols example_matrix"
    by (simp_all add: enough_memory_def real_runtime_def user_space_alloc_def wf_matrix_def
        example_matrix_def INT_MAX_def)
  have use: "objs h' 0 = Some example_matrix \<and> res \<noteq> Some 0"
    if "preserves example_heap h'" "fresh_result example_heap h' res"
    for h' :: "real heap" and res
    using that h(2) by (auto simp: preserves_def fresh_result_def)
  note T = allocating_operations_frame [OF h(1) h(2) h(2), of real_runtime]
  from T m obtain r1 h1 where
    "matrix_multiply_st real_runtime example_heap (Some 0) (Some 0) = Some (r1, h1)"
    "preserves example_heap h1" "fresh_result example_heap h1 r1" "r1 \<noteq> None"
    by auto
  moreover from T m obtain r2 h2 where
    "matrix_add_st real_runtime example_heap (Some 0) (Some 0) = Some (r2, h2)"
    "preserves example_heap h2" "fresh_result example_heap h2 r2" "r2 \<noteq> None"
    by auto
  moreover from T m obtain r3 h3 where
    "matrix_subtract_st real_runtime example_heap (Some 0) (Some 0) = Some (r3, h3)"
    "preserves example_heap h3" "fresh_result example_heap h3 r3" "r3 \<noteq> None"
    by auto
  moreover from T m obtain r4 h4 where
    "matrix_transpose_st real_runtime example_heap (Some 0) = Some (r4, h4)"
    "preserves example_heap h4" "fresh_result example_heap h4 r4" "r4 \<noteq> None"
    by auto
  ultimately show ?thesis
    using h m(1,2) use by simp
qed

section \<open>Training data\<close>


lemma malloc_array_ok:
  assumes "enough_memory rt" "0 \<le> n" "n \<le> INT_MAX"
  shows "malloc_array rt n sizeof_ptr"
proof -
  have "nat n * sizeof_ptr < 2 ^ 35"
    using assms(2,3) by (simp add: sizeof_ptr_def INT_MAX_def)
  then show ?thesis
    using assms by (simp add: malloc_array_nonneg enough_memoryD)
qed


lemma weather_point_to_matrix_ok:
  fixes rt :: "('a::zero) runtime"
  assumes "enough_memory rt"
  shows "weather_point_to_matrix rt (Some p) = Some (point_matrix p)"
proof -
  have "matrix_create rt 6 1
          = Some \<lparr>data = replicate (nat 6) (replicate (nat 1) (0::'a)), rows = 6, cols = 1\<rparr>"
    using assms by (intro matrix_create_ok) (simp_all add: INT_MAX_def)
  moreover have "replicate (nat 6) (replicate (nat 1) (0::'a)) = [[0], [0], [0], [0], [0], [0]]"
    by (simp add: eval_nat_numeral)
  ultimately show ?thesis
    by (simp add: weather_point_to_matrix_def point_matrix_def store_def)
qed




lemma enough_memory_real_runtime: "enough_memory real_runtime"
  by (simp add: enough_memory_def real_runtime_def user_space_alloc_def)



section \<open>Column matrices\<close>

lemma has_shapeD:
  assumes "has_shape p r c"
  obtains m where "p = Some m" "wf_matrix m" "rows m = r" "cols m = c"
  using assms by (cases p) (auto simp: has_shape_def)

lemma wf_column: "int (length v) \<le> INT_MAX \<Longrightarrow> wf_matrix (column v)"
  by (simp add: column_def wf_matrix_def list_all_iff INT_MAX_def)

lemma column_tabulate:
  "0 \<le> r \<Longrightarrow> \<lparr>data = map (\<lambda>i. map (f i) [0..<nat 1]) [0..<nat r], rows = r, cols = 1\<rparr>
     = column (map (\<lambda>i. f i 0) [0..<nat r])"
  by (simp add: column_def comp_def)

text \<open>A well-formed matrix of one column is the column of its vector.\<close>

lemma column_vec:
  assumes "wf_matrix m" "cols m = 1"
  shows "m = column (vec (Some m))"
proof -
  have "data m = map (\<lambda>x. [x]) (map (\<lambda>r. r ! 0) (data m))"
  proof (rule nth_equalityI)
    fix i assume "i < length (data m)"
    then have "length (data m ! i) = 1"
      using assms by (simp add: wf_matrixD)
    then have "data m ! i = [data m ! i ! 0]"
      by (cases "data m ! i") simp_all
    then show "data m ! i = map (\<lambda>x. [x]) (map (\<lambda>r. r ! 0) (data m)) ! i"
      using \<open>i < length (data m)\<close> by simp
  qed simp
  then show ?thesis
    using assms by (cases m) (simp add: column_def vec_def entries_def wf_matrixD wf_matrix_def)
qed

lemma vec_column [simp]: "vec (Some (column v)) = v"
  by (simp add: vec_def entries_def column_def comp_def)

lemma length_vec: "wf_matrix m \<Longrightarrow> length (vec (Some m)) = nat (rows m)"
  by (simp add: vec_def entries_def wf_matrixD)

lemma vec_nth: "wf_matrix m \<Longrightarrow> i < nat (rows m) \<Longrightarrow> vec (Some m) ! i = data m ! i ! 0"
  by (simp add: vec_def entries_def wf_matrixD)

lemma matrix_create_column:
  fixes rt :: "('a::zero) runtime"
  assumes "enough_memory rt" "0 \<le> n" "n \<le> INT_MAX"
  shows "matrix_create rt n 1 = Some (column (replicate (nat n) 0))"
  using assms by (simp add: matrix_create_ok column_def INT_MAX_def)

lemma matrix_multiply_column:
  fixes rt :: "('a::{zero,plus,times}) runtime"
  assumes mem: "enough_memory rt" and W: "has_shape W r c" and x: "has_shape x c 1"
  shows "matrix_multiply rt W x
           = Some (column (map (\<lambda>i. dot (entries W ! i) (vec x)) [0..<nat r]))"
proof -
  from W obtain a where a: "W = Some a" "wf_matrix a" "rows a = r" "cols a = c"
    by (rule has_shapeD)
  from x obtain b where b: "x = Some b" "wf_matrix b" "rows b = c" "cols b = 1"
    by (rule has_shapeD)
  have "foldl (\<lambda>sum k. sum + data a ! i ! k * data b ! k ! 0) 0 [0..<nat c]
          = dot (data a ! i) (vec (Some b))" if "i < nat r" for i
  proof -
    have len: "length (data a ! i) = nat c"
      using a that by (simp add: wf_matrixD)
    have "foldl (\<lambda>sum k. sum + data a ! i ! k * data b ! k ! 0) 0 [0..<nat c]
            = foldl (\<lambda>s k. s + data a ! i ! k * vec (Some b) ! k) 0 [0..<nat c]"
      using b by (intro foldl_cong refl) (simp add: vec_nth)
    then show ?thesis by (simp add: dot_def len)
  qed
  then have eq: "map (\<lambda>i. foldl (\<lambda>sum k. sum + data a ! i ! k * data b ! k ! 0) 0 [0..<nat c]) [0..<nat r]
      = map (\<lambda>i. dot (data a ! i) (vec (Some b))) [0..<nat r]"
    by simp
  have r: "0 \<le> r" using a by (auto dest: wf_matrixD)
  have "matrix_multiply rt (Some a) (Some b)
      = Some \<lparr>data = map (\<lambda>i. [foldl (\<lambda>sum k. sum + data a ! i ! k * data b ! k ! 0) 0 [0..<nat c]])
                        [0..<nat r],
               rows = r, cols = 1\<rparr>"
    using matrix_multiply_ok [OF mem a(2) b(2)] a b by simp
  also have "\<dots> = Some (column (map (\<lambda>i. foldl (\<lambda>sum k. sum + data a ! i ! k * data b ! k ! 0) 0
                                           [0..<nat c]) [0..<nat r]))"
    using r by (simp add: column_def comp_def)
  finally show ?thesis
    using a b by (simp only: eq entries_def option.case)
qed

lemma matrix_add_column:
  fixes rt :: "('a::{zero,plus}) runtime"
  assumes mem: "enough_memory rt" and len: "length u = length v" "int (length u) \<le> INT_MAX"
  shows "matrix_add rt (Some (column u)) (Some (column v))
           = Some (column (map (\<lambda>i. u ! i + v ! i) [0..<length u]))"
proof -
  have "matrix_add rt (Some (column u)) (Some (column v))
      = Some \<lparr>data = map (\<lambda>i. map (\<lambda>j. data (column u) ! i ! j + data (column v) ! i ! j)
                                  [0..<nat (cols (column u))])
                        [0..<nat (rows (column u))],
               rows = rows (column u), cols = cols (column u)\<rparr>"
    using len by (intro matrix_add_ok mem wf_column) (simp_all add: column_def)
  also have "\<dots> = Some (column (map (\<lambda>i. u ! i + v ! i) [0..<length u]))"
    using len by (simp add: column_def)
  finally show ?thesis .
qed

lemma matrix_copy_same_shape:
  assumes "rows dest = rows src" "cols dest = cols src"
    and "length (data src) = nat (rows src)"
    and "\<And>i. i < nat (rows src) \<Longrightarrow> length (data src ! i) = nat (cols src)"
    and "length (data dest) = nat (rows src)"
    and "\<And>i. i < nat (rows src) \<Longrightarrow> length (data dest ! i) = nat (cols src)"
  shows "matrix_copy (Some dest) (Some src) = Some (dest\<lparr>data := data src\<rparr>)"
proof -
  have "for2 (rows src) (cols src) (\<lambda>i j d. store d i j (data src ! i ! j)) (data dest)
      = map (\<lambda>i. map (\<lambda>j. data src ! i ! j) [0..<nat (cols src)]) [0..<nat (rows src)]"
    using assms(5,6) by (intro for2_store_fill [where v = "\<lambda>i j _. data src ! i ! j"]) simp_all
  also have "\<dots> = data src"
    using assms(3,4) by (intro nth_equalityI) (simp_all add: map_nth)
  finally show ?thesis
    using assms(1,2) by (simp add: matrix_copy_def)
qed

lemma matrix_copy_wf:
  assumes "wf_matrix dest" "wf_matrix src" "rows dest = rows src" "cols dest = cols src"
  shows "matrix_copy (Some dest) (Some src) = Some src"
proof -
  have "matrix_copy (Some dest) (Some src) = Some (dest\<lparr>data := data src\<rparr>)"
    using assms by (intro matrix_copy_same_shape) (simp_all add: wf_matrixD)
  also have "dest\<lparr>data := data src\<rparr> = src"
    using assms(3,4) by (cases dest; cases src) simp
  finally show ?thesis .
qed

lemma apply_sigmoid_column:
  "apply_sigmoid rt (Some (column v)) = Some (column (map (sigmoid rt) v))"
proof -
  have "for2 (int (length v)) 1 (\<lambda>i j d. store d i j (sigmoid rt (d ! i ! j))) (map (\<lambda>x. [x]) v)
      = map (\<lambda>i. map (\<lambda>j. sigmoid rt (map (\<lambda>x. [x]) v ! i ! j)) [0..<nat 1]) [0..<nat (int (length v))]"
    by (intro for2_store_fill) simp_all
  also have "\<dots> = map (\<lambda>x. [x]) (map (sigmoid rt) v)"
    by (intro nth_equalityI) simp_all
  finally show ?thesis
    by (simp add: apply_sigmoid_def column_def)
qed

lemma apply_tanh_column:
  "apply_tanh rt (Some (column v)) = Some (column (map (tanh_activation rt) v))"
proof -
  have "for2 (int (length v)) 1 (\<lambda>i j d. store d i j (tanh_activation rt (d ! i ! j))) (map (\<lambda>x. [x]) v)
      = map (\<lambda>i. map (\<lambda>j. tanh_activation rt (map (\<lambda>x. [x]) v ! i ! j)) [0..<nat 1])
          [0..<nat (int (length v))]"
    by (intro for2_store_fill) simp_all
  also have "\<dots> = map (\<lambda>x. [x]) (map (tanh_activation rt) v)"
    by (intro nth_equalityI) simp_all
  finally show ?thesis
    by (simp add: apply_tanh_def column_def)
qed

lemma has_shape_column:
  assumes "has_shape p r 1"
  shows "p = Some (column (vec p))" "length (vec p) = nat r" "0 \<le> r" "r \<le> INT_MAX"
proof -
  from assms obtain m where m: "p = Some m" "wf_matrix m" "rows m = r" "cols m = 1"
    by (rule has_shapeD)
  show "p = Some (column (vec p))" using m column_vec by auto
  show "length (vec p) = nat r" using m by (simp add: length_vec)
  show "0 \<le> r" "r \<le> INT_MAX" using m by (auto dest: wf_matrixD)
qed

lemma has_shape_columnI:
  "length v = nat r \<Longrightarrow> 0 \<le> r \<Longrightarrow> r \<le> INT_MAX \<Longrightarrow> has_shape (Some (column v)) r 1"
  by (simp add: has_shape_def wf_column) (simp add: column_def)

section \<open>One forward step\<close>

lemma gate_temp2_column:
  fixes rt :: "('a::{zero,plus,times}) runtime"
  assumes mem: "enough_memory rt"
    and W: "has_shape W r c" and U: "has_shape U r r" and b: "has_shape b r 1"
    and h: "has_shape h r 1" and x: "has_shape x c 1"
  shows "gate_temp2 rt W U b h x
           = Some (column (map (pre_activation W U b (vec x) (vec h)) [0..<nat r]))"
proof -
  let ?u = "map (\<lambda>i. dot (entries W ! i) (vec x)) [0..<nat r]"
  let ?v = "map (\<lambda>i. dot (entries U ! i) (vec h)) [0..<nat r]"
  let ?t = "map (\<lambda>i. ?u ! i + ?v ! i) [0..<length ?u]"
  note bc = has_shape_column [OF b]
  have r: "int (nat r) \<le> INT_MAX" using bc by simp
  have "gate_temp2 rt W U b h x
      = matrix_add rt (matrix_add rt (Some (column ?u)) (Some (column ?v))) (Some (column (vec b)))"
    using matrix_multiply_column [OF mem W x] matrix_multiply_column [OF mem U h] bc(1)
    by (simp add: gate_temp2_def)
  also have "matrix_add rt (Some (column ?u)) (Some (column ?v)) = Some (column ?t)"
    using r by (intro matrix_add_column mem) simp_all
  also have "matrix_add rt (Some (column ?t)) (Some (column (vec b)))
      = Some (column (map (\<lambda>i. ?t ! i + vec b ! i) [0..<length ?t]))"
    using r bc(2) by (intro matrix_add_column mem) simp_all
  also have "map (\<lambda>i. ?t ! i + vec b ! i) [0..<length ?t]
      = map (pre_activation W U b (vec x) (vec h)) [0..<nat r]"
    by (simp add: pre_activation_def)
  finally show ?thesis .
qed

lemma for1_invariant:
  assumes "P 0 s"
    and step: "\<And>i s. i < nat n \<Longrightarrow> P i s \<Longrightarrow> \<exists>s'. body i s = Some s' \<and> P (Suc i) s'"
  shows "\<exists>s'. for1 n body s = Some s' \<and> P (nat n) s'"
proof -
  have "\<exists>s'. foldl (\<lambda>r i. Option.bind r (body i)) (Some s) [0..<k] = Some s' \<and> P k s'"
    if "k \<le> nat n" for k
    using that
  proof (induction k)
    case 0
    then show ?case using assms(1) by simp
  next
    case (Suc k)
    then obtain s1 where s1: "foldl (\<lambda>r i. Option.bind r (body i)) (Some s) [0..<k] = Some s1" "P k s1"
      by auto
    from step [of k s1] Suc.prems s1(2) obtain s2 where "body k s1 = Some s2" "P (Suc k) s2"
      by auto
    then show ?case using s1(1) by simp
  qed
  then show ?thesis by (simp add: for1_def)
qed

lemma rd_column: "rd (Some (column v)) i 0 = Some (v ! i)" if "i < length v"
  using that by (simp add: rd_def column_def)

lemma wr_column: "wr (Some (column v)) i 0 x = Some (Some (column (v[i := x])))" if "i < length v"
  using that by (simp add: wr_def column_def store_def map_update)

lemma update_prefix_replicate:
  "k < n \<Longrightarrow> length xs = k \<Longrightarrow> (xs @ replicate (n - k) z)[k := v] = (xs @ [v]) @ replicate (n - Suc k) z"
  by (cases "n - k") (simp_all add: list_update_append Suc_diff_Suc)

lemma update_prefix_drop:
  "k < length c \<Longrightarrow> length xs = k \<Longrightarrow> (xs @ drop k c)[k := v] = (xs @ [v]) @ drop (Suc k) c"
  by (simp add: list_update_append flip: Cons_nth_drop_Suc)

lemma nth_prefix_drop:
  "k < length c \<Longrightarrow> length xs = k \<Longrightarrow> (xs @ drop k c) ! k = c ! k"
  by (simp add: nth_append)

lemma cell_state_loop:
  fixes f :: "nat \<Rightarrow> ('a::{zero,plus,times})"
  assumes len: "length c = n"
  shows "for1 (int n)
           (\<lambda>i (fc, ic, cs). do {
              a \<leftarrow> rd (Some (column (map f [0..<n]))) i 0;
              b \<leftarrow> rd cs i 0;
              fc' \<leftarrow> wr fc i 0 (a * b);
              p \<leftarrow> rd (Some (column (map ig [0..<n]))) i 0;
              t \<leftarrow> rd (Some (column (map g [0..<n]))) i 0;
              ic' \<leftarrow> wr ic i 0 (p * t);
              x \<leftarrow> rd fc' i 0;
              y \<leftarrow> rd ic' i 0;
              cs' \<leftarrow> wr cs i 0 (x + y);
              Some (fc', ic', cs')
            })
           (Some (column (replicate n 0)), Some (column (replicate n 0)), Some (column c))
         = Some (Some (column (map (\<lambda>i. f i * c ! i) [0..<n])),
                 Some (column (map (\<lambda>i. ig i * g i) [0..<n])),
                 Some (column (map (\<lambda>i. f i * c ! i + ig i * g i) [0..<n])))"
    (is "for1 _ ?body ?s0 = Some ?final")
proof -
  define P where "P k s \<longleftrightarrow>
      s = (Some (column (map (\<lambda>i. f i * c ! i) [0..<k] @ replicate (n - k) 0)),
           Some (column (map (\<lambda>i. ig i * g i) [0..<k] @ replicate (n - k) 0)),
           Some (column (map (\<lambda>i. f i * c ! i + ig i * g i) [0..<k] @ drop k c)))"
    for k and s :: "'a Matrix option \<times> 'a Matrix option \<times> 'a Matrix option"
  have "\<exists>s'. for1 (int n) ?body ?s0 = Some s' \<and> P (nat (int n)) s'"
  proof (rule for1_invariant)
    show "P 0 ?s0" by (simp add: P_def)
  next
    fix i s assume i: "i < nat (int n)" and "P i s"
    then have s: "s = (Some (column (map (\<lambda>i. f i * c ! i) [0..<i] @ replicate (n - i) 0)),
           Some (column (map (\<lambda>i. ig i * g i) [0..<i] @ replicate (n - i) 0)),
           Some (column (map (\<lambda>i. f i * c ! i + ig i * g i) [0..<i] @ drop i c)))"
      by (simp add: P_def)
    have "?body i s = Some
          (Some (column (map (\<lambda>i. f i * c ! i) [0..<Suc i] @ replicate (n - Suc i) 0)),
           Some (column (map (\<lambda>i. ig i * g i) [0..<Suc i] @ replicate (n - Suc i) 0)),
           Some (column (map (\<lambda>i. f i * c ! i + ig i * g i) [0..<Suc i] @ drop (Suc i) c)))"
      unfolding s using i len
      by (simp add: rd_column wr_column nth_prefix_drop update_prefix_replicate
          update_prefix_drop nth_append)
    then show "\<exists>s'. ?body i s = Some s' \<and> P (Suc i) s'"
      by (simp add: P_def)
  qed
  then show ?thesis using len by (simp add: P_def)
qed

lemma hidden_state_loop:
  fixes og :: "nat \<Rightarrow> ('a::times)"
  assumes len: "length h = n"
  shows "for1 (int n)
           (\<lambda>i hs. do {
              x \<leftarrow> rd (Some (column (map og [0..<n]))) i 0;
              y \<leftarrow> rd (Some (column (map ct [0..<n]))) i 0;
              wr hs i 0 (x * y)
            })
           (Some (column h))
         = Some (Some (column (map (\<lambda>i. og i * ct i) [0..<n])))"
    (is "for1 _ ?body ?s0 = Some ?final")
proof -
  define P where "P k s \<longleftrightarrow> s = Some (column (map (\<lambda>i. og i * ct i) [0..<k] @ drop k h))"
    for k and s :: "'a Matrix option"
  have "\<exists>s'. for1 (int n) ?body ?s0 = Some s' \<and> P (nat (int n)) s'"
  proof (rule for1_invariant)
    show "P 0 ?s0" by (simp add: P_def)
  next
    fix i s assume i: "i < nat (int n)" and "P i s"
    then have s: "s = Some (column (map (\<lambda>i. og i * ct i) [0..<i] @ drop i h))"
      by (simp add: P_def)
    have "?body i s = Some (Some (column (map (\<lambda>i. og i * ct i) [0..<Suc i] @ drop (Suc i) h)))"
      unfolding s using i len
      by (simp add: rd_column wr_column update_prefix_drop)
    then show "\<exists>s'. ?body i s = Some s' \<and> P (Suc i) s'"
      by (simp add: P_def)
  qed
  then show ?thesis using len by (simp add: P_def)
qed

lemma matrix_copy_into_column:
  assumes "has_shape p r 1" "length v = nat r"
  shows "matrix_copy p (Some (column v)) = Some (column v)"
proof -
  from assms(1) obtain m where m: "p = Some m" "wf_matrix m" "rows m = r" "cols m = 1"
    by (rule has_shapeD)
  have "int (length v) \<le> INT_MAX" using m assms(2) by (auto dest: wf_matrixD)
  then have "wf_matrix (column v)" by (rule wf_column)
  moreover have "rows m = rows (column v)" "cols m = cols (column v)"
    using m assms(2) by (auto simp: column_def dest: wf_matrixD)
  ultimately show ?thesis using m by (simp add: matrix_copy_wf)
qed

lemma gate_column:
  fixes rt :: "('a::{zero,plus,times}) runtime"
  assumes mem: "enough_memory rt"
    and W: "has_shape W r c" and U: "has_shape U r r" and b: "has_shape b r 1"
    and h: "has_shape h r 1" and x: "has_shape x c 1" and gate: "has_shape gate r 1"
  shows "matrix_copy gate (gate_temp2 rt W U b h x)
           = Some (column (map (pre_activation W U b (vec x) (vec h)) [0..<nat r]))"
  unfolding gate_temp2_column [OF mem W U b h x]
  by (rule matrix_copy_into_column [OF gate]) simp

lemma wf_cellD:
  assumes "wf_cell cell"
  shows "has_shape (W_f cell) (hidden_size cell) (input_size cell)"
    "has_shape (W_i cell) (hidden_size cell) (input_size cell)"
    "has_shape (W_c cell) (hidden_size cell) (input_size cell)"
    "has_shape (W_o cell) (hidden_size cell) (input_size cell)"
    "has_shape (U_f cell) (hidden_size cell) (hidden_size cell)"
    "has_shape (U_i cell) (hidden_size cell) (hidden_size cell)"
    "has_shape (U_c cell) (hidden_size cell) (hidden_size cell)"
    "has_shape (U_o cell) (hidden_size cell) (hidden_size cell)"
    "has_shape (b_f cell) (hidden_size cell) 1"
    "has_shape (b_i cell) (hidden_size cell) 1"
    "has_shape (b_c cell) (hidden_size cell) 1"
    "has_shape (b_o cell) (hidden_size cell) 1"
    "has_shape (cell_state cell) (hidden_size cell) 1"
    "has_shape (hidden_state cell) (hidden_size cell) 1"
    "has_shape (forget_gate cell) (hidden_size cell) 1"
    "has_shape (input_gate cell) (hidden_size cell) 1"
    "has_shape (candidate_gate cell) (hidden_size cell) 1"
    "has_shape (output_gate cell) (hidden_size cell) 1"
  using assms by (simp_all add: wf_cell_def)

lemma lstm_cell_forward_eq:
  fixes rt :: "('a::{zero,one,plus,uminus,times,inverse}) runtime"
  assumes mem: "enough_memory rt" and wf: "wf_cell cell"
    and x: "has_shape (Some xm) (input_size cell) 1"
  shows "lstm_cell_forward rt (Some cell) (Some xm)
           = Some (Some (spec_forward rt cell (vec (Some xm))),
                   hidden_state (spec_forward rt cell (vec (Some xm))))"
proof -
  let ?x = "Some xm"
  note s = wf_cellD [OF wf]
  define n where "n = nat (hidden_size cell)"
  note hs = has_shape_column [OF s(14)]
  note cs = has_shape_column [OF s(13)]
  have H: "hidden_size cell = int n" "0 \<le> hidden_size cell" "hidden_size cell \<le> INT_MAX"
    using hs by (simp_all add: n_def)
  let ?h = "vec (hidden_state cell)" and ?c = "vec (cell_state cell)"
  obtain cv where cv: "cell_state cell = Some (column cv)" "length cv = n"
    using cs(1,2) n_def by blast
  obtain hv where hv: "hidden_state cell = Some (column hv)" "length hv = n"
    using hs(1,2) n_def by blast
  have vecs: "?c = cv" "?h = hv" by (simp_all add: cv hv)
  define f where "f = (\<lambda>i. sigmoid rt (pre_activation (W_f cell) (U_f cell) (b_f cell) (vec ?x) ?h i))"
  define ig where "ig = (\<lambda>i. sigmoid rt (pre_activation (W_i cell) (U_i cell) (b_i cell) (vec ?x) ?h i))"
  define g where "g = (\<lambda>i. tanh_activation rt (pre_activation (W_c cell) (U_c cell) (b_c cell) (vec ?x) ?h i))"
  define og where "og = (\<lambda>i. sigmoid rt (pre_activation (W_o cell) (U_o cell) (b_o cell) (vec ?x) ?h i))"
  define c' where "c' = (\<lambda>i. f i * ?c ! i + ig i * g i)"
  define h' where "h' = (\<lambda>i. og i * tanh_activation rt (c' i))"
  have fg: "apply_sigmoid rt (matrix_copy (forget_gate cell)
              (gate_temp2 rt (W_f cell) (U_f cell) (b_f cell) (hidden_state cell) ?x))
            = Some (column (map f [0..<n]))"
    by (simp add: gate_column [OF mem s(1) s(5) s(9) s(14) x s(15)] apply_sigmoid_column
        f_def n_def comp_def)
  have igt: "apply_sigmoid rt (matrix_copy (input_gate cell)
              (gate_temp2 rt (W_i cell) (U_i cell) (b_i cell) (hidden_state cell) ?x))
            = Some (column (map ig [0..<n]))"
    by (simp add: gate_column [OF mem s(2) s(6) s(10) s(14) x s(16)] apply_sigmoid_column
        ig_def n_def comp_def)
  have cg: "apply_tanh rt (matrix_copy (candidate_gate cell)
              (gate_temp2 rt (W_c cell) (U_c cell) (b_c cell) (hidden_state cell) ?x))
            = Some (column (map g [0..<n]))"
    by (simp add: gate_column [OF mem s(3) s(7) s(11) s(14) x s(17)] apply_tanh_column
        g_def n_def comp_def)
  have ogt: "apply_sigmoid rt (matrix_copy (output_gate cell)
              (gate_temp2 rt (W_o cell) (U_o cell) (b_o cell) (hidden_state cell) ?x))
            = Some (column (map og [0..<n]))"
    by (simp add: gate_column [OF mem s(4) s(8) s(12) s(14) x s(18)] apply_sigmoid_column
        og_def n_def comp_def)
  have new: "matrix_create rt (hidden_size cell) 1 = Some (column (replicate n (0::'a)))"
    unfolding n_def by (rule matrix_create_column [OF mem H(2,3)])
  have loop1: "for1 (hidden_size cell)
           (\<lambda>i (fc, ic, cs). do {
              a \<leftarrow> rd (Some (column (map f [0..<n]))) i 0;
              b \<leftarrow> rd cs i 0;
              fc' \<leftarrow> wr fc i 0 (a * b);
              p \<leftarrow> rd (Some (column (map ig [0..<n]))) i 0;
              t \<leftarrow> rd (Some (column (map g [0..<n]))) i 0;
              ic' \<leftarrow> wr ic i 0 (p * t);
              x \<leftarrow> rd fc' i 0;
              y \<leftarrow> rd ic' i 0;
              cs' \<leftarrow> wr cs i 0 (x + y);
              Some (fc', ic', cs')
            })
           (Some (column (replicate n 0)), Some (column (replicate n 0)), cell_state cell)
         = Some (Some (column (map (\<lambda>i. f i * ?c ! i) [0..<n])),
                 Some (column (map (\<lambda>i. ig i * g i) [0..<n])),
                 Some (column (map c' [0..<n])))"
    unfolding H(1) vecs cv(1)
    by (subst cell_state_loop [where n = n and c = cv])
       (use cv(2) in \<open>simp_all add: c'_def vecs\<close>)
  have ct: "apply_tanh rt (matrix_copy (Some (column (replicate n 0))) (Some (column (map c' [0..<n]))))
          = Some (column (map (\<lambda>i. tanh_activation rt (c' i)) [0..<n]))"
    using H by (subst matrix_copy_into_column [where r = "hidden_size cell"])
      (simp_all add: has_shape_columnI apply_tanh_column comp_def)
  have loop2: "for1 (hidden_size cell)
           (\<lambda>i hs. do {
              x \<leftarrow> rd (Some (column (map og [0..<n]))) i 0;
              y \<leftarrow> rd (Some (column (map (\<lambda>i. tanh_activation rt (c' i)) [0..<n]))) i 0;
              wr hs i 0 (x * y)
            })
           (hidden_state cell)
         = Some (Some (column (map h' [0..<n])))"
    unfolding H(1) hv(1)
    by (subst hidden_state_loop [where n = n and h = hv])
       (use hv(2) in \<open>simp_all add: h'_def\<close>)
  have out: "matrix_copy (Some (column (replicate n 0))) (Some (column (map h' [0..<n])))
          = Some (column (map h' [0..<n]))"
    using H by (intro matrix_copy_into_column [where r = "hidden_size cell"])
      (simp_all add: has_shape_columnI)
  have spec: "spec_forward rt cell (vec ?x)
      = cell\<lparr>forget_gate := Some (column (map f [0..<n])),
              input_gate := Some (column (map ig [0..<n])),
              candidate_gate := Some (column (map g [0..<n])),
              output_gate := Some (column (map og [0..<n])),
              cell_state := Some (column (map c' [0..<n])),
              hidden_state := Some (column (map h' [0..<n]))\<rparr>"
    by (simp add: spec_forward_def Let_def n_def f_def ig_def g_def og_def c'_def h'_def)
  show ?thesis
    unfolding spec
    by (simp add: lstm_cell_forward_def Let_def fg igt cg ogt new loop1 ct loop2 out)
qed

lemma wf_cell_spec_forward:
  assumes "wf_cell cell"
  shows "wf_cell (spec_forward rt cell x)"
    and "input_size (spec_forward rt cell x) = input_size cell"
    and "hidden_size (spec_forward rt cell x) = hidden_size cell"
proof -
  note s = wf_cellD [OF assms]
  note hs = has_shape_column [OF s(14)]
  have col: "has_shape (Some (column (map f [0..<nat (hidden_size cell)]))) (hidden_size cell) 1"
    for f :: "nat \<Rightarrow> 'a"
    using hs(3,4) by (intro has_shape_columnI) simp_all
  show "wf_cell (spec_forward rt cell x)"
    using s by (simp add: wf_cell_def spec_forward_def Let_def col)
  show "input_size (spec_forward rt cell x) = input_size cell"
    "hidden_size (spec_forward rt cell x) = hidden_size cell"
    by (simp_all add: spec_forward_def Let_def)
qed

lemma wf_example_cell: "wf_cell example_cell"
  by (simp add: wf_cell_def example_cell_def has_shape_def wf_matrix_def column_def INT_MAX_def)


lemma has_shape_point_matrix: "has_shape (Some (point_matrix p)) 6 1"
  by (simp add: has_shape_def point_matrix_def wf_matrix_def INT_MAX_def)

lemma vec_point_matrix:
  "vec (Some (point_matrix p))
     = [temperature p, pressure p, humidity p, wind_speed p, wind_direction p, precipitation p]"
  by (simp add: vec_def entries_def point_matrix_def)

lemma spec_forward_example_cell:
  "spec_forward real_runtime example_cell [a, b, c, d, e, f]
     = example_cell\<lparr>forget_gate := Some (column [1 / (1 + exp (- 1))]),
                     input_gate := Some (column [1 / 2]),
                     candidate_gate := Some (column [0]),
                     output_gate := Some (column [1 / 2]),
                     cell_state := Some (column [0]),
                     hidden_state := Some (column [0])\<rparr>"
proof -
  have six: "[0..<6] = [0, 1, 2, 3, 4, 5::nat]"
    by (simp add: upt_rec)
  have "dot [0, 0, 0, 0, 0, 0] [a, b, c, d, e, f] = (0::real)"
    by (simp add: dot_def six)
  moreover have "dot [0] [0] = (0::real)"
    by (simp add: dot_def)
  ultimately show ?thesis
    by (simp add: spec_forward_def Let_def example_cell_def pre_activation_def entries_def
        column_def vec_def sigmoid_def tanh_activation_def real_runtime_def)
qed


section \<open>Prediction\<close>

lemma matrix_zero_column:
  fixes p :: "('a::zero) Matrix option"
  assumes "has_shape p r 1"
  shows "matrix_zero p = Some (column (replicate (nat r) 0))"
proof -
  from assms obtain m where m: "p = Some m" "wf_matrix m" "rows m = r" "cols m = 1"
    by (rule has_shapeD)
  have "for2 (rows m) (cols m) (\<lambda>i j d. store d i j 0) (data m)
      = map (\<lambda>i. map (\<lambda>j. 0) [0..<nat (cols m)]) [0..<nat (rows m)]"
    using m(2) by (intro for2_store_fill [where v = "\<lambda>_ _ _. 0"]) (simp_all add: wf_matrixD)
  also have "\<dots> = map (\<lambda>x. [x]) (replicate (nat r) 0)"
    using m by (simp add: map_replicate_const)
  finally show ?thesis
    using m wf_matrixD(3) [OF m(2)] by (cases m) (simp add: matrix_zero_def column_def)
qed

lemma lstm_cell_reset_state_eq:
  fixes cell :: "('a::zero) LSTMCell"
  assumes "wf_cell cell"
  shows "lstm_cell_reset_state (Some cell) = Some (spec_reset cell)"
  using wf_cellD(13,14) [OF assms]
  by (simp add: lstm_cell_reset_state_def spec_reset_def matrix_zero_column)

lemma wf_cell_spec_reset:
  assumes "wf_cell cell"
  shows "wf_cell (spec_reset cell)"
    and "input_size (spec_reset cell) = input_size cell"
    and "hidden_size (spec_reset cell) = hidden_size cell"
proof -
  note s = wf_cellD [OF assms]
  note hs = has_shape_column [OF s(14)]
  have "has_shape (Some (column (replicate (nat (hidden_size cell)) (0::'a)))) (hidden_size cell) 1"
    using hs(3,4) by (intro has_shape_columnI) simp_all
  then show "wf_cell (spec_reset cell)"
    using s by (simp add: wf_cell_def spec_reset_def)
  show "input_size (spec_reset cell) = input_size cell"
    "hidden_size (spec_reset cell) = hidden_size cell"
    by (simp_all add: spec_reset_def)
qed

lemma wf_cell_foldl_spec_forward:
  assumes "wf_cell cell"
  shows "wf_cell (foldl (spec_forward rt) cell xs)"
    and "input_size (foldl (spec_forward rt) cell xs) = input_size cell"
    and "hidden_size (foldl (spec_forward rt) cell xs) = hidden_size cell"
  using assms by (induction xs arbitrary: cell) (simp_all add: wf_cell_spec_forward)

text \<open>The loop over the timesteps: the cell after \<open>n\<close> steps, and the last hidden output
  (no output at all when there was no step).\<close>

lemma forward_loop:
  fixes rt :: "('a::{zero,one,plus,uminus,times,inverse}) runtime"
  assumes mem: "enough_memory rt" and wf: "wf_cell cell"
    and n: "nat n \<le> length sq"
    and shapes: "\<And>t. t < nat n \<Longrightarrow> has_shape (sq ! t) (input_size cell) 1"
  shows "for1 n
           (\<lambda>t (layer, hidden_output).
              if t < length sq then lstm_cell_forward rt layer (sq ! t) else None)
           (Some cell, None)
         = Some (Some (foldl (spec_forward rt) cell (map vec (take (nat n) sq))),
                 if nat n = 0 then None
                 else hidden_state (foldl (spec_forward rt) cell (map vec (take (nat n) sq))))"
    (is "for1 _ ?body ?s0 = _")
proof -
  define P where "P k s \<longleftrightarrow>
      s = (Some (foldl (spec_forward rt) cell (map vec (take k sq))),
           if k = 0 then None else hidden_state (foldl (spec_forward rt) cell (map vec (take k sq))))"
    for k and s :: "'a LSTMCell option \<times> 'a Matrix option"
  have "\<exists>s'. for1 n ?body ?s0 = Some s' \<and> P (nat n) s'"
  proof (rule for1_invariant)
    show "P 0 ?s0" by (simp add: P_def)
  next
    fix k s assume k: "k < nat n" and "P k s"
    let ?c = "foldl (spec_forward rt) cell (map vec (take k sq))"
    from \<open>P k s\<close> have s: "s = (Some ?c, if k = 0 then None else hidden_state ?c)"
      by (simp add: P_def)
    note wfc = wf_cell_foldl_spec_forward [OF wf, of rt "map vec (take k sq)"]
    from shapes [OF k] obtain x where x: "sq ! k = Some x" by (rule has_shapeD)
    have "has_shape (Some x) (input_size ?c) 1"
      using shapes [OF k] x wfc(2) by simp
    from lstm_cell_forward_eq [OF mem wfc(1) this]
    have "?body k s = Some (Some (spec_forward rt ?c (vec (sq ! k))),
                            hidden_state (spec_forward rt ?c (vec (sq ! k))))"
      using k n x by (simp add: s)
    moreover have "take (Suc k) sq = take k sq @ [sq ! k]"
      using k n by (simp add: take_Suc_conv_app_nth)
    ultimately show "\<exists>s'. ?body k s = Some s' \<and> P (Suc k) s'"
      by (simp add: P_def)
  qed
  then show ?thesis by (simp add: P_def)
qed

lemma wf_networkD:
  assumes "wf_network network"
  obtains cell where "lstm_layer network = Some cell" "wf_cell cell"
    "input_size cell = net_input_size network" "hidden_size cell = net_hidden_size network"
    "has_shape (W_output network) (output_size network) (net_hidden_size network)"
    "has_shape (b_output network) (output_size network) 1"
  using assms by (cases "lstm_layer network") (auto simp: wf_network_def)

lemma output_projection:
  fixes rt :: "('a::{zero,plus,times}) runtime"
  assumes mem: "enough_memory rt"
    and W: "has_shape (W_output network) (output_size network) (net_hidden_size network)"
    and b: "has_shape (b_output network) (output_size network) 1"
    and h: "has_shape h (net_hidden_size network) 1"
  shows "matrix_add rt (matrix_multiply rt (W_output network) h) (b_output network)
           = Some (spec_output network (vec h))"
proof -
  let ?u = "map (\<lambda>i. dot (entries (W_output network) ! i) (vec h)) [0..<nat (output_size network)]"
  note bc = has_shape_column [OF b]
  have "matrix_add rt (matrix_multiply rt (W_output network) h) (b_output network)
      = matrix_add rt (Some (column ?u)) (Some (column (vec (b_output network))))"
    using matrix_multiply_column [OF mem W h] bc(1) by simp
  also have "\<dots> = Some (column (map (\<lambda>i. ?u ! i + vec (b_output network) ! i) [0..<length ?u]))"
    using bc by (intro matrix_add_column mem) simp_all
  also have "map (\<lambda>i. ?u ! i + vec (b_output network) ! i) [0..<length ?u]
      = map (\<lambda>i. dot (entries (W_output network) ! i) (vec h) + vec (b_output network) ! i)
          [0..<nat (output_size network)]"
    by simp
  finally show ?thesis by (simp add: spec_output_def)
qed

lemma lstm_network_predict_eq:
  fixes rt :: "('a::{zero,one,plus,uminus,times,inverse}) runtime"
  assumes mem: "enough_memory rt" and wf: "wf_network network"
    and cell: "lstm_layer network = Some cell"
    and n: "0 < n" "nat n \<le> length sq"
    and shapes: "\<And>t. t < nat n \<Longrightarrow> has_shape (sq ! t) (net_input_size network) 1"
  shows "lstm_network_predict rt (Some network) (Some sq) n
           = Some (Some (network\<lparr>lstm_layer := Some (spec_run rt cell (map vec (take (nat n) sq)))\<rparr>),
                   Some (spec_output network
                           (vec (hidden_state (spec_run rt cell (map vec (take (nat n) sq)))))))"
proof -
  from wf cell have c: "wf_cell cell" "input_size cell = net_input_size network"
    "hidden_size cell = net_hidden_size network"
    and W: "has_shape (W_output network) (output_size network) (net_hidden_size network)"
    and b: "has_shape (b_output network) (output_size network) 1"
    by (auto elim: wf_networkD)
  let ?xs = "map vec (take (nat n) sq)"
  let ?c0 = "spec_reset cell"
  let ?cN = "spec_run rt cell ?xs"
  note wf0 = wf_cell_spec_reset [OF c(1)]
  note wfN = wf_cell_foldl_spec_forward [OF wf0(1), of rt ?xs]
  have reset: "lstm_network_reset (Some network) = Some (network\<lparr>lstm_layer := Some ?c0\<rparr>)"
    using cell by (simp add: lstm_network_reset_def lstm_cell_reset_state_eq [OF c(1)])
  have loop: "for1 n
           (\<lambda>t (layer, hidden_output).
              if t < length sq then lstm_cell_forward rt layer (sq ! t) else None)
           (Some ?c0, None)
         = Some (Some ?cN, hidden_state ?cN)"
    using forward_loop [OF mem wf0(1) n(2)] shapes n(1) c(2) wf0(2)
    by (simp add: spec_run_def)
  have h: "has_shape (hidden_state ?cN) (net_hidden_size network) 1"
    using wf_cellD(14) [OF wfN(1)] wfN(3) wf0(3) c(3) by (simp add: spec_run_def)
  then obtain hm where hm: "hidden_state ?cN = Some hm" by (rule has_shapeD)
  have out: "matrix_add rt (matrix_multiply rt (W_output network) (hidden_state ?cN)) (b_output network)
           = Some (spec_output network (vec (hidden_state ?cN)))"
    using mem W b h by (rule output_projection)
  show ?thesis
    using out by (simp add: lstm_network_predict_def reset loop hm)
qed

lemma has_shape_spec_output:
  assumes "has_shape (b_output network) (output_size network) 1"
  shows "has_shape (Some (spec_output network h)) (output_size network) 1"
  using has_shape_column(3,4) [OF assms]
  unfolding spec_output_def by (intro has_shape_columnI) simp_all

text \<open>
  Claim C2. On a network as \<^verbatim>\<open>lstm_network_create\<close> builds it, with enough memory and a
  sequence array holding at least \<open>seq_length \<ge> 1\<close> matrices of shape \<open>(input_size, 1)\<close>,
  \<^verbatim>\<open>lstm_network_predict\<close> returns without a fault. The cell it leaves behind is the cell
  after a reset of both states to zero followed by one forward step per timestep, in
  order, and nothing else of the network changes; the returned matrix is
  \<open>W_output\<cdot>h + b_output\<close> for the hidden state \<open>h\<close> after the last step, of shape
  \<open>(output_size, 1)\<close>.
\<close>

theorem lstm_network_predict_spec:
  fixes rt :: "('a::{zero,one,plus,uminus,times,inverse}) runtime"
  assumes "enough_memory rt" and "wf_network network" and "lstm_layer network = Some cell"
    and "1 \<le> n" and "nat n \<le> length sq"
    and "\<forall>t<nat n. has_shape (sq ! t) (net_input_size network) 1"
  shows "\<exists>network' out.
           lstm_network_predict rt (Some network) (Some sq) n = Some (Some network', Some out) \<and>
           network' = network\<lparr>lstm_layer := Some (spec_run rt cell (map vec (take (nat n) sq)))\<rparr> \<and>
           cell_state (spec_reset cell) = Some (column (replicate (nat (net_hidden_size network)) 0)) \<and>
           hidden_state (spec_reset cell) = Some (column (replicate (nat (net_hidden_size network)) 0)) \<and>
           out = spec_output network
                   (vec (hidden_state (spec_run rt cell (map vec (take (nat n) sq))))) \<and>
           has_shape (Some out) (output_size network) 1 \<and>
           (\<forall>i<nat (output_size network).
              vec (Some out) ! i
                = dot (entries (W_output network) ! i)
                    (vec (hidden_state (spec_run rt cell (map vec (take (nat n) sq)))))
                  + vec (b_output network) ! i)"
proof -
  let ?cN = "spec_run rt cell (map vec (take (nat n) sq))"
  from assms(2,3) have c: "hidden_size cell = net_hidden_size network"
    and b: "has_shape (b_output network) (output_size network) 1"
    by (auto elim: wf_networkD)
  have run: "lstm_network_predict rt (Some network) (Some sq) n
           = Some (Some (network\<lparr>lstm_layer := Some ?cN\<rparr>),
                   Some (spec_output network (vec (hidden_state ?cN))))"
    using assms by (intro lstm_network_predict_eq) simp_all
  have comps: "\<forall>i<nat (output_size network).
              vec (Some (spec_output network (vec (hidden_state ?cN)))) ! i
                = dot (entries (W_output network) ! i) (vec (hidden_state ?cN))
                  + vec (b_output network) ! i"
    by (simp add: spec_output_def)
  show ?thesis
    using run comps has_shape_spec_output [OF b] c
    by (intro exI [of _ "network\<lparr>lstm_layer := Some ?cN\<rparr>"]
        exI [of _ "spec_output network (vec (hidden_state ?cN))"])
      (simp add: spec_reset_def)
qed

lemma wf_example_network: "wf_network example_network"
  by (simp add: wf_network_def example_network_def wf_example_cell)
    (simp add: example_cell_def has_shape_def wf_matrix_def column_def INT_MAX_def)

lemma spec_forward_example_again:
  "spec_forward real_runtime
     (example_cell\<lparr>forget_gate := g1, input_gate := g2, candidate_gate := g3, output_gate := g4,
                   cell_state := Some (column [0]), hidden_state := Some (column [0])\<rparr>)
     [a, b, c, d, e, f]
   = example_cell_stepped"
proof -
  have six: "[0..<6] = [0, 1, 2, 3, 4, 5::nat]"
    by (simp add: upt_rec)
  have "dot [0, 0, 0, 0, 0, 0] [a, b, c, d, e, f] = (0::real)"
    by (simp add: dot_def six)
  moreover have "dot [0] [0] = (0::real)"
    by (simp add: dot_def)
  ultimately show ?thesis
    by (simp add: spec_forward_def Let_def example_cell_def example_cell_stepped_def
        pre_activation_def entries_def column_def vec_def sigmoid_def tanh_activation_def
        real_runtime_def)
qed

lemma spec_run_example:
  "spec_run real_runtime example_cell (map vec example_sequence) = example_cell_stepped"
proof -
  have reset: "spec_reset example_cell = example_cell"
    by (simp add: spec_reset_def example_cell_def)
  have first: "spec_forward real_runtime example_cell [a, b, c, d, e, f] = example_cell_stepped"
    for a b c d e f
    using spec_forward_example_cell by (simp add: example_cell_stepped_def)
  have again: "spec_forward real_runtime example_cell_stepped [a, b, c, d, e, f]
      = example_cell_stepped" for a b c d e f
    by (subst example_cell_stepped_def) (rule spec_forward_example_again)
  show ?thesis
    by (simp add: spec_run_def reset example_sequence_def vec_point_matrix first again)
qed

lemma spec_output_example:
  "spec_output example_network (vec (hidden_state example_cell_stepped)) = column [0, 0, 0, 0, 0, 0]"
proof -
  have six: "[0..<6] = [0, 1, 2, 3, 4, 5::nat]"
    by (simp add: upt_rec)
  have "dot [0] [0] = (0::real)" by (simp add: dot_def)
  then show ?thesis
    by (simp add: spec_output_def example_network_def example_cell_stepped_def six entries_def
        vec_def column_def)
qed

theorem lstm_network_predict_spec_witness:
  "enough_memory real_runtime \<and> wf_network example_network \<and>
   lstm_layer example_network = Some example_cell \<and> nat 3 \<le> length example_sequence \<and>
   has_shape (example_sequence ! 0) (net_input_size example_network) 1 \<and>
   has_shape (example_sequence ! 1) (net_input_size example_network) 1 \<and>
   has_shape (example_sequence ! 2) (net_input_size example_network) 1 \<and>
   lstm_network_predict real_runtime (Some example_network) (Some example_sequence) 3
     = Some (Some (example_network\<lparr>lstm_layer := Some example_cell_stepped\<rparr>),
             Some (column [0, 0, 0, 0, 0, 0]))"
proof -
  have len: "nat 3 \<le> length example_sequence"
    by (simp add: example_sequence_def)
  have shapes: "\<forall>t<nat 3. has_shape (example_sequence ! t) (net_input_size example_network) 1"
    by (auto simp: example_sequence_def example_network_def has_shape_point_matrix nth_Cons'
        less_Suc_eq numeral_3_eq_3)
  have layer: "lstm_layer example_network = Some example_cell"
    by (simp add: example_network_def)
  from lstm_network_predict_spec [OF enough_memory_real_runtime wf_example_network layer _ len shapes]
  obtain network' out where r:
    "lstm_network_predict real_runtime (Some example_network) (Some example_sequence) 3
       = Some (Some network', Some out)"
    "network' = example_network\<lparr>lstm_layer :=
        Some (spec_run real_runtime example_cell (map vec (take (nat 3) example_sequence)))\<rparr>"
    "out = spec_output example_network
             (vec (hidden_state (spec_run real_runtime example_cell (map vec (take (nat 3) example_sequence)))))"
    by auto
  have tk: "take (nat 3) example_sequence = example_sequence"
    "take 3 example_sequence = example_sequence"
    by (simp_all add: example_sequence_def)
  have "out = column [0, 0, 0, 0, 0, 0]"
    using r(3) by (simp add: tk spec_run_example spec_output_example)
  moreover have "network' = example_network\<lparr>lstm_layer := Some example_cell_stepped\<rparr>"
    using r(2) by (simp add: tk spec_run_example)
  ultimately show ?thesis
    using r(1) enough_memory_real_runtime wf_example_network layer len
    by (simp add: example_sequence_def example_network_def has_shape_point_matrix)
qed

section \<open>Predicting the next point\<close>

text \<open>
  Claim C7, as the code has it. When the dataset holds fewer than \<open>seq_length\<close> points (and
  also when the network or the dataset is \<^verbatim>\<open>NULL\<close>), \<^verbatim>\<open>lstm_predict_next\<close> returns the weather
  point whose six fields are \<open>0\<close>, the initial value of its \<^verbatim>\<open>result\<close>, and does not touch
  the network.
\<close>

theorem lstm_predict_next_short:
  fixes rt :: "('a::{zero,one,plus,uminus,times,inverse}) runtime"
  shows "(wd_size ds < n \<longrightarrow>
            lstm_predict_next rt (Some network) (Some ds) n = Some (Some network, zero_point))
       \<and> lstm_predict_next rt None (Some ds) n = Some (None, zero_point)
       \<and> lstm_predict_next rt (Some network) None n = Some (Some network, zero_point)"
  by (simp add: lstm_predict_next_def)

theorem lstm_predict_next_short_witness:
  "wd_size (test_dataset 1) < 2 \<and>
   lstm_predict_next real_runtime (Some example_network) (Some (test_dataset 1)) 2
     = Some (Some example_network,
             \<lparr>temperature = 0, pressure = 0, humidity = 0, wind_speed = 0, wind_direction = 0,
              precipitation = 0\<rparr>)"
  using lstm_predict_next_short [of "test_dataset 1" 2 real_runtime example_network]
  by (simp add: test_dataset_def zero_point_def)

lemma spec_run_example_one:
  "spec_run real_runtime example_cell [[a, b, c, d, e, f]] = example_cell_stepped"
proof -
  have "spec_reset example_cell = example_cell"
    by (simp add: spec_reset_def example_cell_def)
  then show ?thesis
    using spec_forward_example_cell [of a b c d e f]
    by (simp add: spec_run_def example_cell_stepped_def)
qed

lemma lstm_network_predict_example_one:
  "lstm_network_predict real_runtime (Some example_network) (Some [Some (point_matrix p)]) 1
     = Some (Some (example_network\<lparr>lstm_layer := Some example_cell_stepped\<rparr>),
             Some (column [0, 0, 0, 0, 0, 0]))"
proof -
  have layer: "lstm_layer example_network = Some example_cell"
    by (simp add: example_network_def)
  have "lstm_network_predict real_runtime (Some example_network) (Some [Some (point_matrix p)]) 1
      = Some (Some (example_network\<lparr>lstm_layer :=
                 Some (spec_run real_runtime example_cell
                         (map vec (take (nat 1) [Some (point_matrix p)])))\<rparr>),
              Some (spec_output example_network
                      (vec (hidden_state (spec_run real_runtime example_cell
                         (map vec (take (nat 1) [Some (point_matrix p)])))))))"
    using has_shape_point_matrix [of p]
    by (intro lstm_network_predict_eq enough_memory_real_runtime wf_example_network layer)
      (simp_all add: example_network_def)
  then show ?thesis
    by (simp add: vec_point_matrix spec_run_example_one spec_output_example)
qed

text \<open>
  Claim C7 as stated wants a failure value distinct from every weather point. The value
  returned for a dataset that is too short is the zero point, and the same network
  returns the same zero point from a prediction that succeeds.
\<close>

theorem lstm_predict_next_not_distinct_counterexample:
  "wd_size (test_dataset 1) < 2 \<and>
   map_option snd (lstm_predict_next real_runtime (Some example_network) (Some (test_dataset 1)) 2)
     = Some zero_point \<and>
   \<not> wd_size (test_dataset 1) < 1 \<and>
   lstm_network_predict real_runtime (Some example_network)
       (Some [Some (point_matrix (test_point 0))]) 1
     = Some (Some (example_network\<lparr>lstm_layer := Some example_cell_stepped\<rparr>),
             Some (column [0, 0, 0, 0, 0, 0])) \<and>
   map_option snd (lstm_predict_next real_runtime (Some example_network) (Some (test_dataset 1)) 1)
     = Some zero_point"
proof -
  have short: "lstm_predict_next real_runtime (Some example_network) (Some (test_dataset 1)) 2
      = Some (Some example_network, zero_point)"
    by (simp add: lstm_predict_next_def test_dataset_def)
  have m: "malloc_array real_runtime 1 sizeof_ptr"
    by (intro malloc_array_ok enough_memory_real_runtime) (simp_all add: INT_MAX_def)
  have "matrix_to_weather_point (Some (column [0, 0, 0, 0, 0, 0])) = (zero_point :: real WeatherPoint)"
    by (simp add: matrix_to_weather_point_def column_def zero_point_def)
  then have "lstm_predict_next real_runtime (Some example_network) (Some (test_dataset 1)) 1
      = Some (Some (example_network\<lparr>lstm_layer := Some example_cell_stepped\<rparr>), zero_point)"
    using m
    by (simp add: lstm_predict_next_def test_dataset_def
        weather_point_to_matrix_ok [OF enough_memory_real_runtime]
        lstm_network_predict_example_one)
  then show ?thesis
    using short lstm_network_predict_example_one [of "test_point 0"]
    by (simp add: test_dataset_def)
qed

section \<open>Training\<close>

lemma for1_preserves:
  assumes "for1 n body s = Some s'"
    and "\<And>i s s'. body i s = Some s' \<Longrightarrow> f s' = f s"
  shows "f s' = f s"
proof -
  have "foldl (\<lambda>r i. Option.bind r (body i)) (Some s) xs = Some s' \<Longrightarrow> f s' = f s" for xs s'
  proof (induction xs arbitrary: s' rule: rev_induct)
    case Nil
    then show ?case by simp
  next
    case (snoc x xs)
    then obtain s1 where "foldl (\<lambda>r i. Option.bind r (body i)) (Some s) xs = Some s1"
      "body x s1 = Some s'"
      by (auto simp: bind_eq_Some_conv)
    then show ?case using snoc.IH [of s1] assms(2) [of x s1 s'] by simp
  qed
  then show ?thesis using assms(1) by (simp add: for1_def)
qed

lemma lstm_cell_forward_weights:
  assumes "lstm_cell_forward rt cp x = Some (cp', out)"
  shows "cell_weights cp' = cell_weights cp"
proof (cases "cp = None \<or> x = None")
  case True
  then show ?thesis
    using assms by (auto simp: lstm_cell_forward_def split: option.splits)
next
  case False
  then obtain cell xm where "cp = Some cell" "x = Some xm" by auto
  then show ?thesis
    using assms
    by (auto simp: lstm_cell_forward_def Let_def cell_weights_def bind_eq_Some_conv
        split: prod.splits)
qed

lemma lstm_network_predict_untrained:
  assumes "lstm_network_predict rt (Some network) sq n = Some (np', out)"
  shows "\<exists>network'. np' = Some network' \<and> untrained network' = untrained network \<and>
           W_output network' = W_output network"
proof (cases sq)
  case None
  then show ?thesis
    using assms by (auto simp: lstm_network_predict_def)
next
  case (Some xs)
  let ?body = "\<lambda>t (layer, hidden_output).
                 if t < length xs then lstm_cell_forward rt layer (xs ! t) else None"
  let ?n0 = "network\<lparr>lstm_layer := lstm_cell_reset_state (lstm_layer network)\<rparr>"
  have reset: "lstm_network_reset (Some network) = Some ?n0"
    by (simp add: lstm_network_reset_def)
  from assms obtain layer ho where
    loop: "for1 n ?body (lstm_layer ?n0, None) = Some (layer, ho)"
    and res: "np' = Some (?n0\<lparr>lstm_layer := layer\<rparr>)"
    by (auto simp: lstm_network_predict_def Some reset bind_eq_Some_conv Let_def
        split: option.splits)
  have "cell_weights (fst (layer, ho)) = cell_weights (fst (lstm_layer ?n0, None :: 'a Matrix option))"
    using loop
    by (rule for1_preserves) (auto split: if_splits dest: lstm_cell_forward_weights)
  moreover have "cell_weights (lstm_cell_reset_state (lstm_layer network)) = cell_weights (lstm_layer network)"
    by (cases "lstm_layer network") (simp_all add: lstm_cell_reset_state_def cell_weights_def)
  ultimately show ?thesis
    using res by (simp add: untrained_def)
qed

lemma train_on_pair_untrained:
  assumes "train_on_pair rt dat s network = Some network'"
  shows "untrained network' = untrained network"
proof -
  from assms obtain np pred n1 where
    p: "lstm_network_predict rt (Some network) (Some (inputs dat ! s)) (td_sequence_length dat)
          = Some (np, pred)"
    and n1: "np = Some n1"
    and rest: "(case pred of None \<Rightarrow> Some n1
          | Some _ \<Rightarrow> do {
              let error = matrix_subtract rt (targets dat ! s) pred;
              let error = matrix_scale error (learning_rate n1);
              layer \<leftarrow> lstm_layer n1;
              let hidden_transpose = matrix_transpose rt (hidden_state layer);
              let weight_update = matrix_multiply rt error hidden_transpose;
              let new_weights = matrix_add rt (W_output n1) weight_update;
              Some (n1\<lparr>W_output := matrix_copy (W_output n1) new_weights\<rparr>)
            }) = Some network'"
    by (auto simp: train_on_pair_def bind_eq_Some_conv)
  from lstm_network_predict_untrained [OF p] n1 have u: "untrained n1 = untrained network"
    by simp
  from rest have "untrained network' = untrained n1"
    by (cases pred) (auto simp: Let_def bind_eq_Some_conv untrained_def)
  with u show ?thesis by simp
qed

lemma lstm_train_untrained:
  assumes "lstm_train rt (Some network) dp epochs = Some r"
  shows "\<exists>network'. r = Some network' \<and> untrained network' = untrained network"
proof (cases dp)
  case None
  then show ?thesis using assms by (auto simp: lstm_train_def)
next
  case (Some dat)
  from assms obtain network' where r: "r = Some network'"
    and run: "for1 epochs (\<lambda>epoch. for1 (num_sequences dat) (\<lambda>sq. train_on_pair rt dat sq)) network
                = Some network'"
    by (auto simp: lstm_train_def Some)
  have "untrained network' = untrained network"
    using run
  proof (rule for1_preserves)
    fix epoch :: nat and s s' :: "'a LSTMNetwork"
    assume "for1 (num_sequences dat) (\<lambda>sq. train_on_pair rt dat sq) s = Some s'"
    then show "untrained s' = untrained s"
      by (rule for1_preserves) (rule train_on_pair_untrained)
  qed
  with r show ?thesis by simp
qed

lemma matrix_subtract_column:
  fixes rt :: "('a::{zero,minus}) runtime"
  assumes mem: "enough_memory rt" and len: "length u = length v" "int (length u) \<le> INT_MAX"
  shows "matrix_subtract rt (Some (column u)) (Some (column v))
           = Some (column (map (\<lambda>i. u ! i - v ! i) [0..<length u]))"
proof -
  have "matrix_subtract rt (Some (column u)) (Some (column v))
      = Some \<lparr>data = map (\<lambda>i. map (\<lambda>j. data (column u) ! i ! j - data (column v) ! i ! j)
                                  [0..<nat (cols (column u))])
                        [0..<nat (rows (column u))],
               rows = rows (column u), cols = cols (column u)\<rparr>"
    using len by (intro matrix_subtract_ok mem wf_column) (simp_all add: column_def)
  also have "\<dots> = Some (column (map (\<lambda>i. u ! i - v ! i) [0..<length u]))"
    using len by (simp add: column_def)
  finally show ?thesis .
qed

lemma matrix_scale_column:
  "matrix_scale (Some (column v)) s = Some (column (map (\<lambda>x. x * s) v))"
proof -
  have "for2 (int (length v)) 1 (\<lambda>i j d. store d i j (d ! i ! j * s)) (map (\<lambda>x. [x]) v)
      = map (\<lambda>i. map (\<lambda>j. map (\<lambda>x. [x]) v ! i ! j * s) [0..<nat 1]) [0..<nat (int (length v))]"
    by (intro for2_store_fill [where v = "\<lambda>_ _ x. x * s"]) simp_all
  also have "\<dots> = map (\<lambda>x. [x]) (map (\<lambda>x. x * s) v)"
    by (intro nth_equalityI) simp_all
  finally show ?thesis
    by (simp add: matrix_scale_def column_def)
qed

lemma matrix_transpose_column:
  fixes rt :: "('a::zero) runtime"
  assumes "enough_memory rt" "int (length h) \<le> INT_MAX"
  shows "matrix_transpose rt (Some (column h)) = Some \<lparr>data = [h], rows = 1, cols = int (length h)\<rparr>"
proof -
  have "map (\<lambda>i. map (\<lambda>x. [x]) h ! i ! 0) [0..<length h] = h"
    by (intro nth_equalityI) simp_all
  then show ?thesis
    using matrix_transpose_ok [OF assms(1) wf_column [OF assms(2)]]
    by (simp add: column_def)
qed

lemma matrix_multiply_outer:
  fixes rt :: "('a::{zero,plus,times}) runtime"
  assumes "enough_memory rt" "int (length e) \<le> INT_MAX" "int (length h) \<le> INT_MAX"
  shows "matrix_multiply rt (Some (column e)) (Some \<lparr>data = [h], rows = 1, cols = int (length h)\<rparr>)
           = Some \<lparr>data = map (\<lambda>i. map (\<lambda>j. 0 + e ! i * h ! j) [0..<length h]) [0..<length e],
                   rows = int (length e), cols = int (length h)\<rparr>"
proof -
  have wf: "wf_matrix \<lparr>data = [h], rows = 1, cols = int (length h)\<rparr>"
    using assms(3) by (simp add: wf_matrix_def INT_MAX_def)
  show ?thesis
    using matrix_multiply_ok [OF assms(1) wf_column [OF assms(2)] wf]
    by (simp add: column_def)
qed

lemma weight_update_eq:
  fixes rt :: "('a::{zero,plus,minus,times}) runtime"
  assumes mem: "enough_memory rt"
    and W: "has_shape (W_output network) (output_size network) (net_hidden_size network)"
    and t: "has_shape target (output_size network) 1"
    and p: "has_shape (Some out) (output_size network) 1"
    and h: "has_shape hidden (net_hidden_size network) 1"
  shows "matrix_copy (W_output network)
           (matrix_add rt (W_output network)
              (matrix_multiply rt
                 (matrix_scale (matrix_subtract rt target (Some out)) (learning_rate network))
                 (matrix_transpose rt hidden)))
         = Some (spec_weight_update network (vec target) (vec (Some out)) (vec hidden))"
proof -
  let ?o = "nat (output_size network)" and ?H = "nat (net_hidden_size network)"
  let ?lr = "learning_rate network"
  let ?tv = "vec target" and ?ov = "vec (Some out)" and ?hv = "vec hidden"
  note tc = has_shape_column [OF t] and pc = has_shape_column [OF p] and hc = has_shape_column [OF h]
  from W obtain Wm where Wm: "W_output network = Some Wm" "wf_matrix Wm"
    "rows Wm = output_size network" "cols Wm = net_hidden_size network"
    by (rule has_shapeD)
  let ?e = "map (\<lambda>x. x * ?lr) (map (\<lambda>i. ?tv ! i - ?ov ! i) [0..<length ?tv])"
  let ?wu = "\<lparr>data = map (\<lambda>i. map (\<lambda>j. 0 + ?e ! i * ?hv ! j) [0..<length ?hv]) [0..<length ?e],
                rows = int (length ?e), cols = int (length ?hv)\<rparr>"
  have lens: "length ?e = ?o" "length ?hv = ?H" "int ?o \<le> INT_MAX" "int ?H \<le> INT_MAX"
    "int ?o = output_size network" "int ?H = net_hidden_size network"
    using tc hc by simp_all
  have "matrix_subtract rt target (Some out)
      = Some (column (map (\<lambda>i. ?tv ! i - ?ov ! i) [0..<length ?tv]))"
    using tc pc by (subst tc(1), subst pc(1)) (intro matrix_subtract_column mem, simp_all)
  then have e: "matrix_scale (matrix_subtract rt target (Some out)) ?lr = Some (column ?e)"
    by (simp add: matrix_scale_column)
  have ht: "matrix_transpose rt hidden = Some \<lparr>data = [?hv], rows = 1, cols = int (length ?hv)\<rparr>"
    using hc by (subst hc(1)) (intro matrix_transpose_column mem, simp)
  have wu: "matrix_multiply rt (Some (column ?e)) (Some \<lparr>data = [?hv], rows = 1, cols = int (length ?hv)\<rparr>)
      = Some ?wu"
    using lens by (intro matrix_multiply_outer mem) simp_all
  have "matrix_add rt (Some Wm) (Some ?wu)
      = Some \<lparr>data = map (\<lambda>i. map (\<lambda>j. data Wm ! i ! j + data ?wu ! i ! j) [0..<nat (cols Wm)])
                        [0..<nat (rows Wm)],
               rows = rows Wm, cols = cols Wm\<rparr>"
    using Wm lens by (intro matrix_add_ok mem) simp_all
  also have "map (\<lambda>i. map (\<lambda>j. data Wm ! i ! j + data ?wu ! i ! j) [0..<nat (cols Wm)]) [0..<nat (rows Wm)]
      = map (\<lambda>i. map (\<lambda>j. data Wm ! i ! j + (0 + (?tv ! i - ?ov ! i) * ?lr * ?hv ! j)) [0..<?H]) [0..<?o]"
    using Wm(3,4) lens tc(2) by (simp cong: map_cong)
  finally have new: "matrix_add rt (Some Wm) (Some ?wu)
      = Some (spec_weight_update network ?tv ?ov ?hv)"
    using Wm by (simp add: spec_weight_update_def entries_def)
  have wfn: "wf_matrix (spec_weight_update network ?tv ?ov ?hv)"
    unfolding spec_weight_update_def
    using wf_matrixD(3-6) [OF Wm(2)] Wm(3,4) by (intro wf_matrix_tabulate) simp_all
  have "matrix_copy (Some Wm) (Some (spec_weight_update network ?tv ?ov ?hv))
      = Some (spec_weight_update network ?tv ?ov ?hv)"
    using Wm wfn by (intro matrix_copy_wf) (simp_all add: spec_weight_update_def)
  then show ?thesis
    by (simp only: e ht wu Wm(1) new)
qed

lemma wf_training_dataD:
  assumes "wf_training_data network dat" "s < nat (num_sequences dat)"
  shows "0 < td_sequence_length dat"
    and "nat (td_sequence_length dat) \<le> length (inputs dat ! s)"
    and "\<And>t. t < nat (td_sequence_length dat) \<Longrightarrow>
           has_shape (inputs dat ! s ! t) (net_input_size network) 1"
    and "has_shape (targets dat ! s) (output_size network) 1"
  using assms by (auto simp: wf_training_data_def list_all_iff)

lemma train_on_pair_eq:
  fixes rt :: "('a::{zero,one,plus,minus,uminus,times,inverse}) runtime"
  assumes mem: "enough_memory rt" and wf: "wf_network network"
    and dat: "wf_training_data network dat" and s: "s < nat (num_sequences dat)"
  shows "train_on_pair rt dat s network = Some (spec_train_on_pair rt dat network s)"
proof -
  from wf obtain cell where cell: "lstm_layer network = Some cell" and c: "wf_cell cell"
    "hidden_size cell = net_hidden_size network"
    and W: "has_shape (W_output network) (output_size network) (net_hidden_size network)"
    and b: "has_shape (b_output network) (output_size network) 1"
    by (auto elim: wf_networkD)
  note d = wf_training_dataD [OF dat s]
  let ?xs = "map vec (take (nat (td_sequence_length dat)) (inputs dat ! s))"
  let ?cN = "spec_run rt cell ?xs"
  let ?out = "spec_output network (vec (hidden_state ?cN))"
  let ?n1 = "network\<lparr>lstm_layer := Some ?cN\<rparr>"
  have pred: "lstm_network_predict rt (Some network) (Some (inputs dat ! s)) (td_sequence_length dat)
      = Some (Some ?n1, Some ?out)"
    using mem wf cell d(1,2,3) by (rule lstm_network_predict_eq)
  note wf0 = wf_cell_spec_reset [OF c(1)]
  note wfN = wf_cell_foldl_spec_forward [OF wf0(1), of rt ?xs]
  have h: "has_shape (hidden_state ?cN) (net_hidden_size ?n1) 1"
    using wf_cellD(14) [OF wfN(1)] wfN(3) wf0(3) c(2) by (simp add: spec_run_def)
  have upd: "matrix_copy (W_output ?n1)
           (matrix_add rt (W_output ?n1)
              (matrix_multiply rt
                 (matrix_scale (matrix_subtract rt (targets dat ! s) (Some ?out)) (learning_rate ?n1))
                 (matrix_transpose rt (hidden_state ?cN))))
         = Some (spec_weight_update ?n1 (vec (targets dat ! s)) (vec (Some ?out)) (vec (hidden_state ?cN)))"
    using W d(4) has_shape_spec_output [OF b] h
    by (intro weight_update_eq mem) simp_all
  have "spec_weight_update ?n1 = spec_weight_update network"
    by (simp add: spec_weight_update_def fun_eq_iff)
  with upd show ?thesis
    by (simp add: train_on_pair_def pred Let_def spec_train_on_pair_def cell)
qed

lemma wf_network_spec_train_on_pair:
  assumes wf: "wf_network network" and dat: "wf_training_data network dat"
  shows "wf_network (spec_train_on_pair rt dat network s)"
    and "wf_training_data (spec_train_on_pair rt dat network s) dat"
proof -
  from wf obtain cell where cell: "lstm_layer network = Some cell" and c: "wf_cell cell"
    "input_size cell = net_input_size network" "hidden_size cell = net_hidden_size network"
    and W: "has_shape (W_output network) (output_size network) (net_hidden_size network)"
    and b: "has_shape (b_output network) (output_size network) 1"
    by (auto elim: wf_networkD)
  let ?xs = "map vec (take (nat (td_sequence_length dat)) (inputs dat ! s))"
  note wf0 = wf_cell_spec_reset [OF c(1)]
  note wfN = wf_cell_foldl_spec_forward [OF wf0(1), of rt ?xs]
  from W obtain Wm where Wm: "W_output network = Some Wm" "wf_matrix Wm"
    "rows Wm = output_size network" "cols Wm = net_hidden_size network"
    by (rule has_shapeD)
  have "wf_matrix (spec_weight_update network t p h)" for t p h
    unfolding spec_weight_update_def
    using wf_matrixD(3-6) [OF Wm(2)] Wm(3,4) by (intro wf_matrix_tabulate) simp_all
  then have "has_shape (Some (spec_weight_update network t p h)) (output_size network)
               (net_hidden_size network)" for t p h
    by (simp add: has_shape_def) (simp add: spec_weight_update_def)
  then show "wf_network (spec_train_on_pair rt dat network s)"
    using wfN wf0 c b
    by (simp add: wf_network_def spec_train_on_pair_def cell Let_def spec_run_def)
  show "wf_training_data (spec_train_on_pair rt dat network s) dat"
    using dat by (simp add: wf_training_data_def spec_train_on_pair_def cell Let_def)
qed

lemma for1_Some_invariant:
  assumes "I s"
    and "\<And>i s. i < nat n \<Longrightarrow> I s \<Longrightarrow> body i s = Some (step s i) \<and> I (step s i)"
  shows "for1 n body s = Some (foldl step s [0..<nat n]) \<and> I (foldl step s [0..<nat n])"
proof -
  have "\<exists>s'. for1 n body s = Some s' \<and> (s' = foldl step s [0..<nat n] \<and> I s')"
    by (rule for1_invariant [where P = "\<lambda>k s'. s' = foldl step s [0..<k] \<and> I s'"])
      (use assms in auto)
  then show ?thesis by auto
qed

lemma lstm_train_eq:
  fixes rt :: "('a::{zero,one,plus,minus,uminus,times,inverse}) runtime"
  assumes mem: "enough_memory rt" and wf: "wf_network network"
    and dat: "wf_training_data network dat"
  shows "lstm_train rt (Some network) (Some dat) epochs = Some (Some (spec_train rt network dat epochs))"
    and "wf_network (spec_train rt network dat epochs)"
proof -
  define I where "I net \<longleftrightarrow> wf_network net \<and> wf_training_data net dat" for net :: "'a LSTMNetwork"
  let ?epoch = "\<lambda>net (epoch::nat). foldl (spec_train_on_pair rt dat) net [0..<nat (num_sequences dat)]"
  have inner: "for1 (num_sequences dat) (\<lambda>sq. train_on_pair rt dat sq) net = Some (?epoch net e)
      \<and> I (?epoch net e)" if "I net" for net and e :: nat
  proof (rule for1_Some_invariant [where I = I])
    show "I net" by fact
  next
    fix i s assume "i < nat (num_sequences dat)" "I s"
    then show "train_on_pair rt dat i s = Some (spec_train_on_pair rt dat s i) \<and>
        I (spec_train_on_pair rt dat s i)"
      using train_on_pair_eq [OF mem, of s dat i] wf_network_spec_train_on_pair [of s dat rt i]
      by (simp add: I_def)
  qed
  have "for1 epochs (\<lambda>epoch. for1 (num_sequences dat) (\<lambda>sq. train_on_pair rt dat sq)) network
      = Some (foldl ?epoch network [0..<nat epochs]) \<and> I (foldl ?epoch network [0..<nat epochs])"
  proof (rule for1_Some_invariant [where I = I])
    show "I network" using wf dat by (simp add: I_def)
  next
    fix i s assume "i < nat epochs" "I s"
    then show "for1 (num_sequences dat) (\<lambda>sq. train_on_pair rt dat sq) s = Some (?epoch s i) \<and>
        I (?epoch s i)"
      using inner by simp
  qed
  then show "lstm_train rt (Some network) (Some dat) epochs = Some (Some (spec_train rt network dat epochs))"
    and "wf_network (spec_train rt network dat epochs)"
    by (simp_all add: lstm_train_def spec_train_def I_def)
qed

text \<open>
  Claim C3. Whatever the network, the training data and the epoch count, a call of
  \<^verbatim>\<open>lstm_train\<close> that returns leaves the eight weight matrices and the four biases of the
  cell, \<open>b_output\<close>, the sizes and the hyperparameters as they were. With enough memory, a
  network as \<^verbatim>\<open>lstm_network_create\<close> builds it and training data of matching shapes it does
  return, with the network the specification's trainer describes; and on each pair
  entry \<open>(i, j)\<close> of \<open>W_output\<close> grows by \<open>(target[i] - predicted[i]) * learning_rate * h[j]\<close>
  (added to \<open>0.0\<close> first), where \<open>h\<close> is the hidden state after the last step of the
  prediction.
\<close>

theorem lstm_train_frame:
  fixes rt :: "('a::{zero,one,plus,minus,uminus,times,inverse}) runtime"
  shows "(\<forall>r. lstm_train rt (Some network) dp epochs = Some r \<longrightarrow>
            (\<exists>network'. r = Some network' \<and> untrained network' = untrained network))
       \<and> (enough_memory rt \<and> wf_network network \<and> wf_training_data network dat \<longrightarrow>
            lstm_train rt (Some network) (Some dat) epochs
              = Some (Some (spec_train rt network dat epochs)) \<and>
            untrained (spec_train rt network dat epochs) = untrained network \<and>
            wf_network (spec_train rt network dat epochs))
       \<and> (enough_memory rt \<and> wf_network network \<and> wf_training_data network dat \<and>
          s < nat (num_sequences dat) \<longrightarrow>
            (\<exists>network' cell' predicted.
               train_on_pair rt dat s network = Some network' \<and>
               lstm_layer network' = Some cell' \<and>
               lstm_network_predict rt (Some network) (Some (inputs dat ! s)) (td_sequence_length dat)
                 = Some (Some (network\<lparr>lstm_layer := Some cell'\<rparr>), Some predicted) \<and>
               (\<forall>i<nat (output_size network). \<forall>j<nat (net_hidden_size network).
                  entries (W_output network') ! i ! j
                    = entries (W_output network) ! i ! j
                      + (0 + (vec (targets dat ! s) ! i - vec (Some predicted) ! i)
                             * learning_rate network * vec (hidden_state cell') ! j))))"
proof (intro conjI allI impI)
  fix r assume "lstm_train rt (Some network) dp epochs = Some r"
  then show "\<exists>network'. r = Some network' \<and> untrained network' = untrained network"
    by (rule lstm_train_untrained)
next
  assume a: "enough_memory rt \<and> wf_network network \<and> wf_training_data network dat"
  then show run: "lstm_train rt (Some network) (Some dat) epochs
      = Some (Some (spec_train rt network dat epochs))"
    by (simp add: lstm_train_eq)
  from lstm_train_untrained [OF run]
  show "untrained (spec_train rt network dat epochs) = untrained network" by simp
  from a show "wf_network (spec_train rt network dat epochs)"
    by (simp add: lstm_train_eq)
next
  assume a: "enough_memory rt \<and> wf_network network \<and> wf_training_data network dat \<and>
          s < nat (num_sequences dat)"
  then obtain cell where cell: "lstm_layer network = Some cell"
    by (auto elim: wf_networkD)
  note d = wf_training_dataD [of network dat s]
  let ?cN = "spec_run rt cell (map vec (take (nat (td_sequence_length dat)) (inputs dat ! s)))"
  let ?out = "spec_output network (vec (hidden_state ?cN))"
  have pred: "lstm_network_predict rt (Some network) (Some (inputs dat ! s)) (td_sequence_length dat)
      = Some (Some (network\<lparr>lstm_layer := Some ?cN\<rparr>), Some ?out)"
    using a cell d by (intro lstm_network_predict_eq) simp_all
  have tr: "train_on_pair rt dat s network = Some (spec_train_on_pair rt dat network s)"
    using a by (intro train_on_pair_eq) simp_all
  have "\<forall>i<nat (output_size network). \<forall>j<nat (net_hidden_size network).
      entries (W_output (spec_train_on_pair rt dat network s)) ! i ! j
        = entries (W_output network) ! i ! j
          + (0 + (vec (targets dat ! s) ! i - vec (Some ?out) ! i)
                 * learning_rate network * vec (hidden_state ?cN) ! j)"
    by (simp add: spec_train_on_pair_def cell Let_def spec_weight_update_def entries_def)
  then show "\<exists>network' cell' predicted.
               train_on_pair rt dat s network = Some network' \<and>
               lstm_layer network' = Some cell' \<and>
               lstm_network_predict rt (Some network) (Some (inputs dat ! s)) (td_sequence_length dat)
                 = Some (Some (network\<lparr>lstm_layer := Some cell'\<rparr>), Some predicted) \<and>
               (\<forall>i<nat (output_size network). \<forall>j<nat (net_hidden_size network).
                  entries (W_output network') ! i ! j
                    = entries (W_output network) ! i ! j
                      + (0 + (vec (targets dat ! s) ! i - vec (Some predicted) ! i)
                             * learning_rate network * vec (hidden_state cell') ! j))"
    using tr pred
    by (intro exI [of _ "spec_train_on_pair rt dat network s"] exI [of _ ?cN] exI [of _ ?out])
      (simp add: spec_train_on_pair_def cell Let_def)
qed

lemma wf_example_training_data: "wf_training_data example_network example_training_data"
  by (auto simp: wf_training_data_def example_training_data_def example_sequence_def
      example_network_def has_shape_point_matrix list_all_iff nth_Cons' less_Suc_eq numeral_3_eq_3)

lemma spec_train_on_pair_example:
  assumes "lstm_layer network = Some example_cell \<or> lstm_layer network = Some example_cell_stepped"
    and "network\<lparr>lstm_layer := Some example_cell\<rparr> = example_network"
  shows "spec_train_on_pair real_runtime example_training_data network 0
           = example_network\<lparr>lstm_layer := Some example_cell_stepped\<rparr>"
proof -
  have reset: "spec_reset example_cell = example_cell"
    "spec_reset example_cell_stepped = example_cell_stepped"
    by (simp_all add: spec_reset_def example_cell_def example_cell_stepped_def)
  have first: "spec_forward real_runtime example_cell [a, b, c, d, e, f] = example_cell_stepped"
    for a b c d e f
    using spec_forward_example_cell by (simp add: example_cell_stepped_def)
  have again: "spec_forward real_runtime example_cell_stepped [a, b, c, d, e, f]
      = example_cell_stepped" for a b c d e f
    by (subst example_cell_stepped_def) (rule spec_forward_example_again)
  have run: "spec_run real_runtime c (map vec (take 3 example_sequence)) = example_cell_stepped"
    if "c = example_cell \<or> c = example_cell_stepped" for c
    using that
    by (auto simp: spec_run_def reset example_sequence_def vec_point_matrix first again)
  have fields: "W_output network = Some (column [0, 0, 0, 0, 0, 0])"
    "output_size network = 6" "net_hidden_size network = 1"
    using arg_cong [OF assms(2), of W_output] arg_cong [OF assms(2), of output_size]
      arg_cong [OF assms(2), of net_hidden_size]
    by (simp_all add: example_network_def)
  have six: "[0..<6] = [0, 1, 2, 3, 4, 5::nat]"
    by (simp add: upt_rec)
  have upd: "spec_weight_update network t p (vec (hidden_state example_cell_stepped))
      = column [0, 0, 0, 0, 0, 0]" for t p
    by (simp add: spec_weight_update_def fields entries_def column_def six example_cell_stepped_def
        vec_def)
  have "spec_train_on_pair real_runtime example_training_data network 0
      = network\<lparr>lstm_layer := Some example_cell_stepped, W_output := Some (column [0, 0, 0, 0, 0, 0])\<rparr>"
    using assms(1)
    by (auto simp: spec_train_on_pair_def example_training_data_def Let_def run upd)
  also have "\<dots> = example_network\<lparr>lstm_layer := Some example_cell_stepped\<rparr>"
    using assms(2) by (cases network) (simp add: example_network_def)
  finally show ?thesis .
qed

theorem lstm_train_frame_witness:
  "enough_memory real_runtime \<and> wf_network example_network \<and>
   wf_training_data example_network example_training_data \<and>
   0 < nat (num_sequences example_training_data) \<and>
   lstm_train real_runtime (Some example_network) (Some example_training_data) 2
     = Some (Some (example_network\<lparr>lstm_layer := Some example_cell_stepped\<rparr>)) \<and>
   untrained (example_network\<lparr>lstm_layer := Some example_cell_stepped\<rparr>) = untrained example_network \<and>
   train_on_pair real_runtime example_training_data 0 example_network
     = Some (example_network\<lparr>lstm_layer := Some example_cell_stepped\<rparr>)"
proof -
  note T = lstm_train_frame [of real_runtime example_network "Some example_training_data" 2
      example_training_data 0]
  have hyp: "enough_memory real_runtime \<and> wf_network example_network \<and>
      wf_training_data example_network example_training_data"
    "0 < nat (num_sequences example_training_data)"
    using enough_memory_real_runtime wf_example_network wf_example_training_data
    by (simp_all add: example_training_data_def)
  have one: "[0..<nat (num_sequences example_training_data)] = [0]"
    by (simp add: example_training_data_def)
  have two: "[0..<2] = [0, Suc 0]"
    by (simp add: upt_rec)
  let ?N1 = "example_network\<lparr>lstm_layer := Some example_cell_stepped\<rparr>"
  have e1: "spec_train_on_pair real_runtime example_training_data example_network 0 = ?N1"
    by (rule spec_train_on_pair_example) (simp_all add: example_network_def)
  have e2: "spec_train_on_pair real_runtime example_training_data ?N1 0 = ?N1"
    by (rule spec_train_on_pair_example) (simp_all add: example_network_def)
  have st: "spec_train real_runtime example_network example_training_data 2 = ?N1"
    by (simp add: spec_train_def one two e1 e2)
  from T hyp have
    "lstm_train real_runtime (Some example_network) (Some example_training_data) 2
       = Some (Some (spec_train real_runtime example_network example_training_data 2))"
    "untrained (spec_train real_runtime example_network example_training_data 2)
       = untrained example_network"
    by simp_all
  moreover have "train_on_pair real_runtime example_training_data 0 example_network
      = Some (example_network\<lparr>lstm_layer := Some example_cell_stepped\<rparr>)"
    using hyp by (simp add: train_on_pair_eq e1)
  ultimately show ?thesis
    using hyp by (simp add: st)
qed

section \<open>Saving a model\<close>



section \<open>Creating a network\<close>

lemma map_length_store [simp]: "map length (store d i j v) = map length d"
  by (intro nth_equalityI) simp_all

lemma foldl_keeps:
  assumes "\<And>s x. f (step s x) = f s"
  shows "f (foldl step s xs) = f s"
  by (induction xs arbitrary: s) (simp_all add: assms)

lemma for2_keeps:
  assumes "\<And>i j s. f (body i j s) = f s"
  shows "f (for2 n m body s) = f s"
  unfolding for2_product by (rule foldl_keeps) (simp add: case_prod_unfold assms)

lemma matrix_random_shape:
  "\<exists>d g'. matrix_random rt g (Some m) lo hi = (Some (m\<lparr>data := d\<rparr>), g') \<and>
           map length d = map length (data m)"
proof -
  let ?body = "\<lambda>i j (d, g).
                 let (r, g') = rand g;
                     random = to_double rt (of_int r) / to_double rt (of_int RAND_MAX)
                 in (store d i j (lo + random * (hi - lo)), g')"
  obtain d g' where r: "for2 (rows m) (cols m) ?body (data m, g) = (d, g')"
    by (cases "for2 (rows m) (cols m) ?body (data m, g)")
  have "map length (fst (for2 (rows m) (cols m) ?body (data m, g))) = map length (fst (data m, g))"
  proof (rule for2_keeps [where f = "\<lambda>s. map length (fst s)"])
    fix i j and s :: "'a list list \<times> rng"
    show "map length (fst (?body i j s)) = map length (fst s)"
      by (cases s) (simp add: Let_def split: prod.split)
  qed
  then have "map length d = map length (data m)"
    by (simp only: r fst_conv)
  then show ?thesis
    by (simp only: matrix_random_def option.case r prod.case) blast
qed

lemma initialize_weights_shape:
  "\<exists>d g'. initialize_weights rt g (Some m) scale = (Some (m\<lparr>data := d\<rparr>), g') \<and>
           map length d = map length (data m)"
  unfolding initialize_weights_def Let_def option.case by (rule matrix_random_shape)

lemma initialize_weights_Some:
  "p \<noteq> None \<Longrightarrow> fst (initialize_weights rt g p scale) \<noteq> None"
  using initialize_weights_shape [of rt g _ scale] by (cases p) (auto dest!: spec simp: prod_eq_iff)



section \<open>Loading a model\<close>










end
